theory Spec2Isabelle
  imports Main
begin

section \<open>Data model of \<open>modelvshuman/model_evaluator.py\<close>\<close>

text \<open>
  The module orchestrates the evaluation of vision models on datasets. Tensors, arrays and
  every other array-like Python value are values of one type parameter \<open>'a\<close>. A Python
  call either returns or raises; the state it leaves behind is returned next to its
  outcome, since a raised exception does not undo the mutations made before it.
  Logging, \<open>print\<close>, the \<open>tqdm\<close> progress bar and the unused wall-clock measurement
  do not influence the control flow and are left out.
\<close>

datatype error =
    NameError string
  | ValueError string
  | KeyError string
  | OSError string

datatype 'r outcome = Returned 'r | Raised error

text \<open>\<open>MAX_NUM_MODELS_IN_CACHE = 3\<close>\<close>

definition MAX_NUM_MODELS_IN_CACHE :: nat where
  "MAX_NUM_MODELS_IN_CACHE = 3"

subsection \<open>Metric accumulators\<close>

text \<open>
  Targets of a batch: the evaluators test \<open>isinstance(target, torch.Tensor)\<close>.
\<close>

datatype 'a target = TorchTensor 'a | Plain 'a

text \<open>
  What a call of the dataset's decision mapping returns: the decisions alone, or the pair
  of probabilities and categories when the mapping was initialised with
  \<open>return_raw_probs=True\<close>.
\<close>

datatype 'a prediction = Decisions 'a | RawProbs 'a 'a

text \<open>
  The arguments of one \<open>metric.update\<close> call: \<open>(predictions, targets, paths)\<close> from the
  evaluators, \<open>(predictions, categories, targets, paths, layer)\<close> from the extractor.
\<close>

datatype 'a update_call =
    Update "'a prediction" "'a target" "string list"
  | LayerUpdate 'a 'a "'a target" "string list" nat

datatype metric_class = ReciprocalRank | Probability | Entropy | OtherMetric string

text \<open>
  Modelled from the spec: the metric classes of \<open>evaluation/metrics.py\<close> are not part of
  the sources at hand. The spec describes a metric accumulator as a stateful object with
  reset and update operations whose running state starts from a zero state. The model keeps
  the class of the accumulator and the sequence of update calls received since its zero
  state; the running state and the value of any concrete accumulator are functions of that
  sequence.
\<close>

record 'a metric =
  m_class :: metric_class
  m_updates :: "'a update_call list"

text \<open>Modelled from the spec: a freshly constructed accumulator, e.g. \<open>m.Entropy()\<close>.\<close>

definition new_metric :: "metric_class \<Rightarrow> 'a metric" where
  "new_metric k = \<lparr>m_class = k, m_updates = []\<rparr>"

text \<open>Modelled from the spec: \<open>metric.reset()\<close> returns the accumulator to its zero state.\<close>

definition reset :: "'a metric \<Rightarrow> 'a metric" where
  "reset m = m\<lparr>m_updates := []\<rparr>"

text \<open>Modelled from the spec: \<open>metric.update(...)\<close> accumulates one more call.\<close>

definition update :: "'a update_call \<Rightarrow> 'a metric \<Rightarrow> 'a metric" where
  "update u m = m\<lparr>m_updates := m_updates m @ [u]\<rparr>"

subsection \<open>Datasets, loaders and models\<close>

text \<open>
  A batch is the triple \<open>(images, target, paths)\<close>. A loader is either the loader the
  dataset was built with or a \<open>ToTensorflow\<close> adapter around another loader.
\<close>

type_synonym 'a batch = "'a \<times> 'a target \<times> string list"

datatype 'a loader = DataLoader "'a batch list" | ToTensorflow "'a loader"

text \<open>
  Modelled from the spec: the decision mapping is a callable object of
  \<open>helper/human_categories.py\<close>, absent from the sources at hand. It maps probabilities to
  decisions and, when \<open>return_raw_probs\<close> is set, returns probabilities and categories.
\<close>

record 'a decision_mapping =
  return_raw_probs :: bool
  decisions_of :: "'a \<Rightarrow> 'a"
  raw_probs_of :: "'a \<Rightarrow> 'a \<times> 'a"

definition dm_call :: "'a decision_mapping \<Rightarrow> 'a \<Rightarrow> 'a prediction" where
  "dm_call dm probs =
     (if return_raw_probs dm
      then (case raw_probs_of dm probs of (p, c) \<Rightarrow> RawProbs p c)
      else Decisions (decisions_of dm probs))"

text \<open>\<open>decision_mapping.__init__(return_raw_probs=True)\<close>\<close>

definition dm_init :: "bool \<Rightarrow> 'a decision_mapping \<Rightarrow> 'a decision_mapping" where
  "dm_init flag dm = dm\<lparr>return_raw_probs := flag\<rparr>"

record 'a dataset =
  name :: string
  loader :: "'a loader"
  decision_mapping :: "'a decision_mapping"
  metrics :: "'a metric list"

text \<open>
  A model object: the operations the evaluators and the extractor call on it
  (\<open>model.model.forward_intermediates\<close> returns the final features and, per layer, a pair
  of spatial and prefix features).
\<close>

record 'a model =
  forward_batch :: "'a \<Rightarrow> 'a"
  softmax :: "'a \<Rightarrow> 'a"
  to_numpy :: "'a \<Rightarrow> 'a"
  forward_intermediates :: "'a \<Rightarrow> 'a \<times> ('a \<times> 'a) list"
  forward_head :: "'a \<Rightarrow> 'a"

text \<open>
  The external collaborators, taken as parameters: the model and dataset loaders of
  \<open>utils\<close> (either may raise), the batch conversion of the \<open>ToTensorflow\<close> adapter and the
  tensor operations of \<open>torch\<close> used by the code. The positional and keyword arguments
  that \<open>__call__\<close> only passes through to the loaders are part of the two loader
  parameters.
\<close>

record 'a env =
  load_model :: "string \<Rightarrow> ('a model \<times> string) outcome"
  load_dataset :: "string \<Rightarrow> 'a dataset outcome"
  tf_batch :: "'a batch \<Rightarrow> 'a batch"
  to_device :: "'a \<Rightarrow> 'a"
  shape0 :: "'a \<Rightarrow> nat"
  shape2 :: "'a \<Rightarrow> nat"
  reshape :: "'a \<Rightarrow> nat \<Rightarrow> nat \<Rightarrow> 'a"
  cat1 :: "'a \<Rightarrow> 'a \<Rightarrow> 'a"
  cpu_numpy :: "'a \<Rightarrow> 'a"

text \<open>Iterating a loader yields its batches; an adapter converts each of them.\<close>

fun batches_of :: "'a env \<Rightarrow> 'a loader \<Rightarrow> 'a batch list" where
  "batches_of E (DataLoader bs) = bs"
| "batches_of E (ToTensorflow l) = map (tf_batch E) (batches_of E l)"

subsection \<open>The state of a run\<close>

text \<open>
  Dataset objects are shared by reference between the models of a run, so they live in a
  store: an address is an index into \<open>heap\<close>, and allocation appends. The cache directory
  \<open>/root/.cache/torch/checkpoints/\<close> is \<open>None\<close> when it cannot be listed (it does not
  exist, or permission is denied); otherwise it is the list of its entries, each a name
  and whether \<open>os.remove\<close> succeeds on it (it fails on a subdirectory or a protected
  file). The CSV files are the sequence of calls that wrote to them. \<open>evictions\<close> records
  the calls of \<open>_remove_model_from_cache\<close> made by the orchestrators, with their arguments.
\<close>

datatype 'a csv_call =
    BatchToCsv string string "'a prediction" "'a target" "string list"
  | PerformanceToCsv string string "'a metric"
  | MetricsToCsv string string "'a metric"

type_synonym cachedir = "(string \<times> bool) list option"

record 'a world =
  heap :: "'a dataset list"
  cache :: cachedir
  csv :: "'a csv_call list"
  evictions :: "(string \<times> string) list"

section \<open>Cache eviction\<close>

text \<open>
  Strings hold code points below 256. \<open>str.lower\<close> maps the upper-case letters of that
  range (A-Z, and the Latin-1 capitals 192-214 and 216-222) to the code point 32 above.
\<close>

definition lower_char :: "char \<Rightarrow> char" where
  "lower_char c =
     (let n = (of_char c :: nat)
      in if (65 \<le> n \<and> n \<le> 90) \<or> (192 \<le> n \<and> n \<le> 214) \<or> (216 \<le> n \<and> n \<le> 222)
         then char_of (n + 32) else c)"

definition lower :: "string \<Rightarrow> string" where
  "lower s = map lower_char s"

definition replace_char :: "char \<Rightarrow> char \<Rightarrow> string \<Rightarrow> string" where
  "replace_char old new s = map (\<lambda>c. if c = old then new else c) s"

text \<open>\<open>_format_name(name) = name.lower().replace("-", "_")\<close>\<close>

definition format_name :: "string \<Rightarrow> string" where
  "format_name nm = replace_char (CHR ''-'') (CHR ''_'') (lower nm)"

definition startswith :: "string \<Rightarrow> string \<Rightarrow> bool" where
  "startswith s p = (take (length p) s = p)"

text \<open>The test of line 134: does the cached file \<open>dm\<close> belong to \<open>model_name\<close>?\<close>

definition matches :: "string \<Rightarrow> string \<Rightarrow> bool" where
  "matches model_name dm = startswith (format_name dm) (format_name model_name)"

definition os_listdir :: "cachedir \<Rightarrow> string list outcome" where
  "os_listdir c =
     (case c of None \<Rightarrow> Raised (OSError ''listdir'')
      | Some es \<Rightarrow> Returned (map fst es))"

definition os_remove :: "string \<Rightarrow> cachedir \<Rightarrow> unit outcome \<times> cachedir" where
  "os_remove dm c =
     (case c of None \<Rightarrow> (Raised (OSError ''remove''), c)
      | Some es \<Rightarrow>
          (case map_of es dm of
             Some True \<Rightarrow> (Returned (), Some (filter (\<lambda>e. fst e \<noteq> dm) es))
           | _ \<Rightarrow> (Raised (OSError ''remove''), c)))"

text \<open>The loop of lines 133-135; the first failing \<open>os.remove\<close> leaves it.\<close>

fun remove_matching :: "string \<Rightarrow> string list \<Rightarrow> cachedir \<Rightarrow> unit outcome \<times> cachedir" where
  "remove_matching model_name [] c = (Returned (), c)"
| "remove_matching model_name (dm # dms) c =
     (if matches model_name dm
      then (case os_remove dm c of
              (Raised e, c') \<Rightarrow> (Raised e, c')
            | (Returned _, c') \<Rightarrow> remove_matching model_name dms c')
      else remove_matching model_name dms c)"

text \<open>The body of the \<open>try\<close> block, lines 130-135.\<close>

definition remove_model_try :: "string \<Rightarrow> string \<Rightarrow> cachedir \<Rightarrow> unit outcome \<times> cachedir" where
  "remove_model_try framework model_name c =
     (if framework = ''pytorch''
      then (case os_listdir c of
              Raised e \<Rightarrow> (Raised e, c)
            | Returned downloaded_models \<Rightarrow> remove_matching model_name downloaded_models c)
      else (Returned (), c))"

text \<open>
  \<open>_remove_model_from_cache\<close> (the same text in both classes): the bare \<open>except: pass\<close>
  turns every exception of the body into a normal return.
\<close>

definition remove_model_from_cache ::
  "string \<Rightarrow> string \<Rightarrow> 'a world \<Rightarrow> unit outcome \<times> 'a world" where
  "remove_model_from_cache framework model_name w =
     (case remove_model_try framework model_name (cache w) of
        (Raised e, c') \<Rightarrow> (Returned (), w\<lparr>cache := c'\<rparr>)
      | (Returned _, c') \<Rightarrow> (Returned (), w\<lparr>cache := c'\<rparr>))"

section \<open>\<open>ModelEvaluator\<close>\<close>

text \<open>
  \<open>**kwargs\<close> is a dictionary from option names to values; the only option the module
  reads is \<open>print_predictions\<close>, by subscript, which raises \<open>KeyError\<close> on a missing key.
\<close>

type_synonym kwargs = "string \<rightharpoonup> bool"

definition getitem :: "kwargs \<Rightarrow> string \<Rightarrow> bool outcome" where
  "getitem kw k = (case kw k of None \<Rightarrow> Raised (KeyError k) | Some v \<Rightarrow> Returned v)"

text \<open>
  The two loops over \<open>dataset.metrics\<close>, on the dataset object at address \<open>a\<close>. Every
  address the orchestrators hand out is below the length of the heap.
\<close>

definition reset_metrics :: "nat \<Rightarrow> 'a world \<Rightarrow> 'a world" where
  "reset_metrics a w =
     w\<lparr>heap := (heap w)[a := (heap w ! a)\<lparr>metrics := map reset (metrics (heap w ! a))\<rparr>]\<rparr>"

definition update_metrics :: "'a update_call \<Rightarrow> nat \<Rightarrow> 'a world \<Rightarrow> 'a world" where
  "update_metrics u a w =
     w\<lparr>heap := (heap w)[a := (heap w ! a)\<lparr>metrics := map (update u) (metrics (heap w ! a))\<rparr>]\<rparr>"

text \<open>\<open>result_writer.print_batch_to_csv\<close> of the writer built for the model and the dataset.\<close>

definition print_batch_to_csv ::
  "string \<Rightarrow> nat \<Rightarrow> 'a prediction \<Rightarrow> 'a target \<Rightarrow> string list \<Rightarrow> 'a world \<Rightarrow> 'a world" where
  "print_batch_to_csv model_name a object_response batch_targets paths w =
     w\<lparr>csv := csv w @ [BatchToCsv model_name (name (heap w ! a)) object_response batch_targets paths]\<rparr>"

text \<open>The batch loop of \<open>_pytorch_evaluator\<close>, lines 49-65.\<close>

fun pytorch_loop ::
  "'a env \<Rightarrow> kwargs \<Rightarrow> string \<Rightarrow> 'a model \<Rightarrow> nat \<Rightarrow> 'a batch list \<Rightarrow> 'a world
     \<Rightarrow> unit outcome \<times> 'a world" where
  "pytorch_loop E kw model_name M a [] w = (Returned (), w)"
| "pytorch_loop E kw model_name M a ((images, target, paths) # bs) w =
     (let images' = to_device E images;
          logits = forward_batch M images';
          softmax_output = softmax M logits;
          batch_targets = (case target of
                             TorchTensor t \<Rightarrow> Plain (to_numpy M t)
                           | Plain t \<Rightarrow> Plain t);
          predictions = dm_call (decision_mapping (heap w ! a)) softmax_output;
          w1 = update_metrics (Update predictions batch_targets paths) a w
      in case getitem kw ''print_predictions'' of
           Raised e \<Rightarrow> (Raised e, w1)
         | Returned pp \<Rightarrow>
             pytorch_loop E kw model_name M a bs
               (if pp then print_batch_to_csv model_name a predictions batch_targets paths w1
                else w1))"

text \<open>\<open>_pytorch_evaluator\<close>: reset the metrics (lines 43-44), then the batch loop.\<close>

definition pytorch_evaluator ::
  "'a env \<Rightarrow> kwargs \<Rightarrow> string \<Rightarrow> 'a model \<Rightarrow> nat \<Rightarrow> 'a world \<Rightarrow> unit outcome \<times> 'a world" where
  "pytorch_evaluator E kw model_name M a w =
     (let w1 = reset_metrics a w
      in pytorch_loop E kw model_name M a (batches_of E (loader (heap w1 ! a))) w1)"

text \<open>The batch loop of \<open>_tensorflow_evaluator\<close>, lines 88-99.\<close>

fun tensorflow_loop ::
  "'a env \<Rightarrow> kwargs \<Rightarrow> string \<Rightarrow> 'a model \<Rightarrow> nat \<Rightarrow> 'a batch list \<Rightarrow> 'a world
     \<Rightarrow> unit outcome \<times> 'a world" where
  "tensorflow_loop E kw model_name M a [] w = (Returned (), w)"
| "tensorflow_loop E kw model_name M a ((images, target, paths) # bs) w =
     (let logits = forward_batch M images;
          softmax_output = softmax M logits;
          predictions = dm_call (decision_mapping (heap w ! a)) softmax_output;
          w1 = update_metrics (Update predictions target paths) a w
      in case getitem kw ''print_predictions'' of
           Raised e \<Rightarrow> (Raised e, w1)
         | Returned pp \<Rightarrow>
             tensorflow_loop E kw model_name M a bs
               (if pp then print_batch_to_csv model_name a predictions target paths w1
                else w1))"

text \<open>\<open>_tensorflow_evaluator\<close>: reset the metrics (lines 86-87), then the batch loop.\<close>

definition tensorflow_evaluator ::
  "'a env \<Rightarrow> kwargs \<Rightarrow> string \<Rightarrow> 'a model \<Rightarrow> nat \<Rightarrow> 'a world \<Rightarrow> unit outcome \<times> 'a world" where
  "tensorflow_evaluator E kw model_name M a w =
     (let w1 = reset_metrics a w
      in tensorflow_loop E kw model_name M a (batches_of E (loader (heap w1 ! a))) w1)"

text \<open>\<open>_get_datasets\<close>: every loaded dataset is a new object; the result lists their addresses.\<close>

fun get_datasets :: "'a env \<Rightarrow> string list \<Rightarrow> 'a world \<Rightarrow> nat list outcome \<times> 'a world" where
  "get_datasets E [] w = (Returned [], w)"
| "get_datasets E (d # ds) w =
     (case load_dataset E d of
        Raised e \<Rightarrow> (Raised e, w)
      | Returned obj \<Rightarrow>
          (case get_datasets E ds (w\<lparr>heap := heap w @ [obj]\<rparr>) of
             (Raised e, w') \<Rightarrow> (Raised e, w')
           | (Returned dataset_list, w') \<Rightarrow> (Returned (length (heap w) # dataset_list), w')))"

text \<open>
  \<open>copy.deepcopy\<close> of a list of dataset objects: every distinct object of the list is
  copied once to a fresh address, and the copied list refers to the copies in the same
  pattern.
\<close>

definition index_of :: "nat list \<Rightarrow> nat \<Rightarrow> nat" where
  "index_of xs x = length (takeWhile (\<lambda>y. y \<noteq> x) xs)"

definition deepcopy :: "nat list \<Rightarrow> 'a world \<Rightarrow> nat list \<times> 'a world" where
  "deepcopy datasets w =
     (let objs = remdups datasets
      in (map (\<lambda>a. length (heap w) + index_of objs a) datasets,
          w\<lparr>heap := heap w @ map (\<lambda>a. heap w ! a) objs\<rparr>))"

text \<open>The loop of \<open>_to_tensorflow\<close>, lines 111-113.\<close>

fun wrap_loaders :: "nat list \<Rightarrow> 'a world \<Rightarrow> 'a world" where
  "wrap_loaders [] w = w"
| "wrap_loaders (a # as) w =
     wrap_loaders as
       (w\<lparr>heap := (heap w)[a := (heap w ! a)\<lparr>loader := ToTensorflow (loader (heap w ! a))\<rparr>]\<rparr>)"

definition to_tensorflow :: "nat list \<Rightarrow> 'a world \<Rightarrow> nat list \<times> 'a world" where
  "to_tensorflow datasets w =
     (case deepcopy datasets w of (copies, w1) \<Rightarrow> (copies, wrap_loaders copies w1))"

text \<open>\<open>_get_evaluator\<close> returns one of the two bound methods.\<close>

datatype evaluator = TensorflowEvaluator | PytorchEvaluator

definition get_evaluator :: "string \<Rightarrow> evaluator outcome" where
  "get_evaluator framework =
     (if framework = ''tensorflow'' then Returned TensorflowEvaluator
      else if framework = ''pytorch'' then Returned PytorchEvaluator
      else Raised (NameError ''Unsupported evaluator''))"

fun run_evaluator ::
  "evaluator \<Rightarrow> 'a env \<Rightarrow> kwargs \<Rightarrow> string \<Rightarrow> 'a model \<Rightarrow> nat \<Rightarrow> 'a world
     \<Rightarrow> unit outcome \<times> 'a world" where
  "run_evaluator TensorflowEvaluator = tensorflow_evaluator"
| "run_evaluator PytorchEvaluator = pytorch_evaluator"

text \<open>Lines 175-179: one \<open>print_performance_to_csv\<close> call per metric of the dataset.\<close>

definition print_performances :: "string \<Rightarrow> nat \<Rightarrow> 'a world \<Rightarrow> 'a world" where
  "print_performances model_name a w =
     w\<lparr>csv := csv w @ map (PerformanceToCsv model_name (name (heap w ! a))) (metrics (heap w ! a))\<rparr>"

text \<open>The loop over the datasets of one model, lines 161-179.\<close>

fun dataset_loop ::
  "'a env \<Rightarrow> kwargs \<Rightarrow> evaluator \<Rightarrow> string \<Rightarrow> 'a model \<Rightarrow> nat list \<Rightarrow> 'a world
     \<Rightarrow> unit outcome \<times> 'a world" where
  "dataset_loop E kw ev model_name M [] w = (Returned (), w)"
| "dataset_loop E kw ev model_name M (a # as) w =
     (case run_evaluator ev E kw model_name M a w of
        (Raised e, w1) \<Rightarrow> (Raised e, w1)
      | (Returned _, w1) \<Rightarrow>
          (case getitem kw ''print_predictions'' of
             Raised e \<Rightarrow> (Raised e, w1)
           | Returned pp \<Rightarrow>
               dataset_loop E kw ev model_name M as
                 (if pp then print_performances model_name a w1 else w1)))"

text \<open>
  The call of \<open>_remove_model_from_cache\<close> at lines 181 and 324, recorded in \<open>evictions\<close>.
\<close>

definition evict :: "string \<Rightarrow> string \<Rightarrow> 'a world \<Rightarrow> unit outcome \<times> 'a world" where
  "evict framework model_name w =
     remove_model_from_cache framework model_name
       (w\<lparr>evictions := evictions w @ [(framework, model_name)]\<rparr>)"

text \<open>
  The body of the loop over the models, lines 155-181; \<open>n\<close> is \<open>len(models)\<close> and
  \<open>ds\<close> is the shared list \<open>_datasets\<close>.
\<close>

definition model_step ::
  "'a env \<Rightarrow> kwargs \<Rightarrow> nat \<Rightarrow> string \<Rightarrow> nat list \<Rightarrow> 'a world \<Rightarrow> unit outcome \<times> 'a world" where
  "model_step E kw n model_name ds w =
     (case load_model E model_name of
        Raised e \<Rightarrow> (Raised e, w)
      | Returned (M, framework) \<Rightarrow>
          (case get_evaluator framework of
             Raised e \<Rightarrow> (Raised e, w)
           | Returned ev \<Rightarrow>
               (case (if framework = ''tensorflow'' then to_tensorflow ds w else (ds, w)) of
                  (datasets, w1) \<Rightarrow>
                    (case dataset_loop E kw ev model_name M datasets w1 of
                       (Raised e, w2) \<Rightarrow> (Raised e, w2)
                     | (Returned _, w2) \<Rightarrow>
                         (if n \<ge> MAX_NUM_MODELS_IN_CACHE
                          then evict framework model_name w2
                          else (Returned (), w2))))))"

fun model_loop ::
  "'a env \<Rightarrow> kwargs \<Rightarrow> nat \<Rightarrow> string list \<Rightarrow> nat list \<Rightarrow> 'a world \<Rightarrow> unit outcome \<times> 'a world" where
  "model_loop E kw n [] ds w = (Returned (), w)"
| "model_loop E kw n (model_name # rest) ds w =
     (case model_step E kw n model_name ds w of
        (Raised e, w1) \<Rightarrow> (Raised e, w1)
      | (Returned _, w1) \<Rightarrow> model_loop E kw n rest ds w1)"

text \<open>\<open>ModelEvaluator.__call__\<close>\<close>

definition ModelEvaluator_call ::
  "'a env \<Rightarrow> kwargs \<Rightarrow> string list \<Rightarrow> string list \<Rightarrow> 'a world \<Rightarrow> unit outcome \<times> 'a world" where
  "ModelEvaluator_call E kw models dataset_names w =
     (case get_datasets E dataset_names w of
        (Raised e, w1) \<Rightarrow> (Raised e, w1)
      | (Returned ds, w1) \<Rightarrow> model_loop E kw (length models) models ds w1)"

section \<open>\<open>MetricExtractor\<close>\<close>

text \<open>
  \<open>MetricExtractor._get_datasets\<close> and \<open>MetricExtractor._remove_model_from_cache\<close> repeat
  the text of the \<open>ModelEvaluator\<close> methods, so \<open>get_datasets\<close> and
  \<open>remove_model_from_cache\<close> stand for both.

  The loop over the layers of one batch, lines 220-244; \<open>layer\<close> is the counter of
  \<open>enumerate\<close>. Unpacking the result of the decision mapping into two names fails when it
  is not a pair.
\<close>

fun layer_loop ::
  "'a env \<Rightarrow> 'a model \<Rightarrow> nat \<Rightarrow> nat \<Rightarrow> nat \<Rightarrow> 'a target \<Rightarrow> string list \<Rightarrow> nat
     \<Rightarrow> ('a \<times> 'a) list \<Rightarrow> 'a world \<Rightarrow> unit outcome \<times> 'a world" where
  "layer_loop E M a batch_size hidden_size target paths layer [] w = (Returned (), w)"
| "layer_loop E M a batch_size hidden_size target paths layer
       ((spatial_intermediates, prefix_intermediates) # rest) w =
     (let spatial = reshape E spatial_intermediates batch_size hidden_size;
          intermediate_features = cat1 E prefix_intermediates spatial;
          head = forward_head M intermediate_features;
          probs = softmax M (cpu_numpy E head);
          batch_targets = (case target of
                             TorchTensor t \<Rightarrow> Plain (to_numpy M t)
                           | Plain t \<Rightarrow> Plain t)
      in case dm_call (decision_mapping (heap w ! a)) probs of
           Decisions d \<Rightarrow> (Raised (ValueError ''not enough values to unpack''), w)
         | RawProbs predictions categories \<Rightarrow>
             layer_loop E M a batch_size hidden_size target paths (Suc layer) rest
               (update_metrics (LayerUpdate predictions categories batch_targets paths layer) a w))"

text \<open>The batch loop of \<open>_pytorch_extractor\<close>, lines 213-244.\<close>

fun extractor_loop ::
  "'a env \<Rightarrow> 'a model \<Rightarrow> nat \<Rightarrow> 'a batch list \<Rightarrow> 'a world \<Rightarrow> unit outcome \<times> 'a world" where
  "extractor_loop E M a [] w = (Returned (), w)"
| "extractor_loop E M a ((images, target, paths) # bs) w =
     (let images' = to_device E images
      in case forward_intermediates M images' of
           (final_feat, intermediates) \<Rightarrow>
             (case layer_loop E M a (shape0 E final_feat) (shape2 E final_feat) target paths 0
                     intermediates w of
                (Raised e, w1) \<Rightarrow> (Raised e, w1)
              | (Returned _, w1) \<Rightarrow> extractor_loop E M a bs w1))"

text \<open>
  \<open>_pytorch_extractor\<close>: lines 206-207 re-initialise the decision mapping and replace the
  metric list of the dataset object, then the batch loop runs.
\<close>

definition extraction_metrics :: "'a metric list" where
  "extraction_metrics = [new_metric ReciprocalRank, new_metric Probability, new_metric Entropy]"

definition pytorch_extractor ::
  "'a env \<Rightarrow> kwargs \<Rightarrow> string \<Rightarrow> 'a model \<Rightarrow> nat \<Rightarrow> 'a world \<Rightarrow> unit outcome \<times> 'a world" where
  "pytorch_extractor E kw model_name M a w =
     (let d = heap w ! a;
          d1 = d\<lparr>decision_mapping := dm_init True (decision_mapping d)\<rparr>;
          d2 = d1\<lparr>metrics := extraction_metrics\<rparr>;
          w1 = w\<lparr>heap := (heap w)[a := d2]\<rparr>
      in extractor_loop E M a (batches_of E (loader d2)) w1)"

datatype extractor = PytorchExtractor

definition get_extractor :: "string \<Rightarrow> extractor outcome" where
  "get_extractor framework =
     (if framework = ''tensorflow'' then Raised (ValueError ''Tensorflow is not supported'')
      else if framework = ''pytorch'' then Returned PytorchExtractor
      else Raised (NameError ''Unsupported extractor''))"

fun run_extractor ::
  "extractor \<Rightarrow> 'a env \<Rightarrow> kwargs \<Rightarrow> string \<Rightarrow> 'a model \<Rightarrow> nat \<Rightarrow> 'a world
     \<Rightarrow> unit outcome \<times> 'a world" where
  "run_extractor PytorchExtractor = pytorch_extractor"

text \<open>Lines 318-322: one \<open>print_metrics_to_csv\<close> call per metric of the dataset.\<close>

definition print_metrics :: "string \<Rightarrow> nat \<Rightarrow> 'a world \<Rightarrow> 'a world" where
  "print_metrics model_name a w =
     w\<lparr>csv := csv w @ map (MetricsToCsv model_name (name (heap w ! a))) (metrics (heap w ! a))\<rparr>"

text \<open>The loop over the datasets of one model, lines 303-322.\<close>

fun extract_dataset_loop ::
  "'a env \<Rightarrow> kwargs \<Rightarrow> extractor \<Rightarrow> string \<Rightarrow> 'a model \<Rightarrow> nat list \<Rightarrow> 'a world
     \<Rightarrow> unit outcome \<times> 'a world" where
  "extract_dataset_loop E kw ex model_name M [] w = (Returned (), w)"
| "extract_dataset_loop E kw ex model_name M (a # as) w =
     (case run_extractor ex E kw model_name M a w of
        (Raised e, w1) \<Rightarrow> (Raised e, w1)
      | (Returned _, w1) \<Rightarrow>
          (case getitem kw ''print_predictions'' of
             Raised e \<Rightarrow> (Raised e, w1)
           | Returned pp \<Rightarrow>
               extract_dataset_loop E kw ex model_name M as
                 (if pp then print_metrics model_name a w1 else w1)))"

text \<open>The body of the loop over the models, lines 297-324.\<close>

definition extract_step ::
  "'a env \<Rightarrow> kwargs \<Rightarrow> nat \<Rightarrow> string \<Rightarrow> nat list \<Rightarrow> 'a world \<Rightarrow> unit outcome \<times> 'a world" where
  "extract_step E kw n model_name ds w =
     (case load_model E model_name of
        Raised e \<Rightarrow> (Raised e, w)
      | Returned (M, framework) \<Rightarrow>
          (case get_extractor framework of
             Raised e \<Rightarrow> (Raised e, w)
           | Returned ex \<Rightarrow>
               (if framework = ''tensorflow''
                then (Raised (ValueError ''Tensorflow models not supported''), w)
                else (case extract_dataset_loop E kw ex model_name M ds w of
                        (Raised e, w2) \<Rightarrow> (Raised e, w2)
                      | (Returned _, w2) \<Rightarrow>
                          (if n \<ge> MAX_NUM_MODELS_IN_CACHE
                           then evict framework model_name w2
                           else (Returned (), w2))))))"

fun extract_loop ::
  "'a env \<Rightarrow> kwargs \<Rightarrow> nat \<Rightarrow> string list \<Rightarrow> nat list \<Rightarrow> 'a world \<Rightarrow> unit outcome \<times> 'a world" where
  "extract_loop E kw n [] ds w = (Returned (), w)"
| "extract_loop E kw n (model_name # rest) ds w =
     (case extract_step E kw n model_name ds w of
        (Raised e, w1) \<Rightarrow> (Raised e, w1)
      | (Returned _, w1) \<Rightarrow> extract_loop E kw n rest ds w1)"

text \<open>\<open>MetricExtractor.__call__\<close>\<close>

definition MetricExtractor_call ::
  "'a env \<Rightarrow> kwargs \<Rightarrow> string list \<Rightarrow> string list \<Rightarrow> 'a world \<Rightarrow> unit outcome \<times> 'a world" where
  "MetricExtractor_call E kw models dataset_names w =
     (case get_datasets E dataset_names w of
        (Raised e, w1) \<Rightarrow> (Raised e, w1)
      | (Returned ds, w1) \<Rightarrow> extract_loop E kw (length models) models ds w1)"

section \<open>Observing update calls\<close>

text \<open>The layer index carried by an update call of the extractor.\<close>

fun update_layer :: "'a update_call \<Rightarrow> nat option" where
  "update_layer (Update p t ps) = None"
| "update_layer (LayerUpdate p c t ps layer) = Some layer"




section \<open>Example inputs\<close>

text \<open>Concrete states and collaborators on which the properties below are evaluated.\<close>

definition world0 :: "nat world" where
  "world0 = \<lparr>heap = [], cache = None, csv = [], evictions = []\<rparr>"

definition world_vgg :: "nat world" where
  "world_vgg = \<lparr>heap = [], cache = Some [(''vgg16-397923af.pth'', True)], csv = [], evictions = []\<rparr>"

definition world_resnet :: "nat world" where
  "world_resnet = \<lparr>heap = [],
     cache = Some [(''ResNet50-19c8e357.pth'', True), (''vgg16-397923af.pth'', True),
                   (''resnet50_swsl-a1b2.pth'', True)],
     csv = [], evictions = []\<rparr>"

definition world_mixed :: "nat world" where
  "world_mixed = \<lparr>heap = [],
     cache = Some [(''resnet50-19c8e357.pth'', True), (''vgg16-397923af.pth'', True),
                   (''resnet50-partial'', False), (''resnet50_swsl-a1b2.pth'', True)],
     csv = [], evictions = []\<rparr>"

definition world_blocked :: "nat world" where
  "world_blocked = \<lparr>heap = [],
     cache = Some [(''resnet50-partial'', False), (''resnet50-19c8e357.pth'', True)],
     csv = [], evictions = []\<rparr>"

definition model0 :: "nat model" where
  "model0 = \<lparr>forward_batch = (\<lambda>x. x + 1), softmax = (\<lambda>x. x), to_numpy = (\<lambda>x. x),
              forward_intermediates = (\<lambda>x. (x, [(x, 0), (x, 1)])), forward_head = (\<lambda>x. x)\<rparr>"

definition mapping0 :: "nat decision_mapping" where
  "mapping0 = \<lparr>return_raw_probs = False, decisions_of = (\<lambda>x. x), raw_probs_of = (\<lambda>x. (x, x))\<rparr>"

definition dataset0 :: "nat dataset" where
  "dataset0 = \<lparr>name = ''cue-conflict'',
                loader = DataLoader [(1, TorchTensor 0, [''a.png'']), (2, Plain 1, [''b.png''])],
                decision_mapping = mapping0,
                metrics = [\<lparr>m_class = OtherMetric ''accuracy'', m_updates = []\<rparr>]\<rparr>"

definition env0 :: "nat env" where
  "env0 = \<lparr>load_model = (\<lambda>n. if n = ''resnet50'' \<or> n = ''vgg16'' \<or> n = ''alexnet''
                                then Returned (model0, ''pytorch'')
                              else if n = ''bit_m'' then Returned (model0, ''tensorflow'')
                              else if n = ''flaxnet'' then Returned (model0, ''jax'')
                              else Raised (KeyError n)),
            load_dataset = (\<lambda>n. if n = ''cue-conflict'' then Returned dataset0
                                  else Raised (KeyError n)),
            tf_batch = (\<lambda>b. b), to_device = (\<lambda>x. x), shape0 = (\<lambda>x. 1), shape2 = (\<lambda>x. 1),
            reshape = (\<lambda>x b h. x), cat1 = (\<lambda>p s. p + s), cpu_numpy = (\<lambda>x. x)\<rparr>"

definition world1 :: "nat world" where
  "world1 = \<lparr>heap = [dataset0], cache = None, csv = [], evictions = []\<rparr>"

definition kwargs_on :: kwargs where "kwargs_on = [''print_predictions'' \<mapsto> True]"
definition kwargs_off :: kwargs where "kwargs_off = [''print_predictions'' \<mapsto> False]"
definition kwargs_none :: kwargs where "kwargs_none = Map.empty"

definition world_stale :: "nat world" where
  "world_stale = \<lparr>heap = [dataset0\<lparr>metrics :=
       [\<lparr>m_class = OtherMetric ''accuracy'',
         m_updates = [Update (Decisions 9) (Plain 9) [''old.png'']]\<rparr>]\<rparr>],
     cache = None, csv = [], evictions = []\<rparr>"

section \<open>Properties of cache eviction\<close>

lemma remove_matching_no_match:
  "\<forall>dm\<in>set dms. \<not> matches mn dm \<Longrightarrow> remove_matching mn dms c = (Returned (), c)"
  by (induction dms) auto

lemma os_remove_Some_cases:
  "os_remove dm (Some es) = (r, c') \<Longrightarrow>
     (r = Returned () \<and> c' = Some (filter (\<lambda>e. fst e \<noteq> dm) es)) \<or> (r = Raised (OSError ''remove'') \<and> c' = Some es)"
  by (auto simp: os_remove_def split: option.splits bool.splits)

lemma remove_matching_only_matching:
  "remove_matching mn dms (Some es) = (r, c') \<Longrightarrow>
     \<exists>es'. c' = Some es' \<and> set es' \<subseteq> set es \<and>
       filter (\<lambda>e. \<not> matches mn (fst e)) es' = filter (\<lambda>e. \<not> matches mn (fst e)) es"
proof (induction dms arbitrary: es)
  case Nil
  then show ?case by auto
next
  case (Cons dm dms)
  show ?case
  proof (cases "matches mn dm")
    case False
    with Cons show ?thesis by simp
  next
    case True
    obtain r1 c1 where rm: "os_remove dm (Some es) = (r1, c1)" by (cases "os_remove dm (Some es)")
    from os_remove_Some_cases[OF rm] show ?thesis
    proof
      assume ok: "r1 = Returned () \<and> c1 = Some (filter (\<lambda>e. fst e \<noteq> dm) es)"
      with Cons.prems True rm
      have "remove_matching mn dms (Some (filter (\<lambda>e. fst e \<noteq> dm) es)) = (r, c')" by simp
      from Cons.IH[OF this] obtain es' where
        e: "c' = Some es'" "set es' \<subseteq> set (filter (\<lambda>e. fst e \<noteq> dm) es)"
          "filter (\<lambda>e. \<not> matches mn (fst e)) es' =
           filter (\<lambda>e. \<not> matches mn (fst e)) (filter (\<lambda>e. fst e \<noteq> dm) es)"
        by blast
      have "filter (\<lambda>e. \<not> matches mn (fst e)) (filter (\<lambda>e. fst e \<noteq> dm) es)
            = filter (\<lambda>e. \<not> matches mn (fst e)) es"
        using True by (auto intro: filter_cong)
      with e show ?thesis by auto
    next
      assume "r1 = Raised (OSError ''remove'') \<and> c1 = Some es"
      with Cons.prems True rm show ?thesis by auto
    qed
  qed
qed

lemma map_of_removable:
  "dm \<in> fst ` set es \<Longrightarrow> \<forall>e\<in>set es. fst e = dm \<longrightarrow> snd e \<Longrightarrow> map_of es dm = Some True"
  by (induction es) auto

lemma remove_matching_all:
  "distinct dms \<Longrightarrow> \<forall>dm\<in>set dms. matches mn dm \<longrightarrow> dm \<in> fst ` set es \<Longrightarrow>
   \<forall>e\<in>set es. matches mn (fst e) \<longrightarrow> snd e \<Longrightarrow>
   remove_matching mn dms (Some es)
     = (Returned (), Some (filter (\<lambda>e. \<not> (matches mn (fst e) \<and> fst e \<in> set dms)) es))"
proof (induction dms arbitrary: es)
  case Nil
  then show ?case by simp
next
  case (Cons dm dms)
  show ?case
  proof (cases "matches mn dm")
    case False
    have "filter (\<lambda>e. \<not> (matches mn (fst e) \<and> fst e \<in> set (dm # dms))) es
        = filter (\<lambda>e. \<not> (matches mn (fst e) \<and> fst e \<in> set dms)) es"
      using False by (auto intro: filter_cong)
    with Cons False show ?thesis by simp
  next
    case True
    have m: "map_of es dm = Some True"
      using Cons.prems True by (intro map_of_removable) auto
    let ?es1 = "filter (\<lambda>e. fst e \<noteq> dm) es"
    have rm: "os_remove dm (Some es) = (Returned (), Some ?es1)"
      by (simp add: os_remove_def m)
    have p1: "\<forall>d\<in>set dms. matches mn d \<longrightarrow> d \<in> fst ` set ?es1"
    proof (intro ballI impI)
      fix d assume d: "d \<in> set dms" "matches mn d"
      with Cons.prems obtain e where "e \<in> set es" "fst e = d" by auto
      moreover from d Cons.prems(1) have "d \<noteq> dm" by auto
      ultimately show "d \<in> fst ` set ?es1" by force
    qed
    have p2: "\<forall>e\<in>set ?es1. matches mn (fst e) \<longrightarrow> snd e"
      using Cons.prems(3) by simp
    have "remove_matching mn dms (Some ?es1)
      = (Returned (), Some (filter (\<lambda>e. \<not> (matches mn (fst e) \<and> fst e \<in> set dms)) ?es1))"
      using Cons.prems(1) p1 p2 by (intro Cons.IH) auto
    moreover have "filter (\<lambda>e. \<not> (matches mn (fst e) \<and> fst e \<in> set dms)) ?es1
       = filter (\<lambda>e. \<not> (matches mn (fst e) \<and> fst e \<in> set (dm # dms))) es"
      using True by (auto intro: filter_cong)
    ultimately show ?thesis using True rm by simp
  qed
qed

text \<open>
  Claim C7: the cache-eviction operation never raises, whatever its arguments and the
  state of the cache directory; when the directory cannot be listed, or holds no file
  whose name matches the model, it returns with the state unchanged.
\<close>

theorem eviction_never_raises:
  "fst (remove_model_from_cache framework model_name w) = Returned ()
   \<and> (cache w = None \<longrightarrow> snd (remove_model_from_cache framework model_name w) = w)
   \<and> (cache w = Some es \<and> (\<forall>e\<in>set es. \<not> matches model_name (fst e))
        \<longrightarrow> snd (remove_model_from_cache framework model_name w) = w)"
proof (intro conjI impI)
  show "fst (remove_model_from_cache framework model_name w) = Returned ()"
    by (simp add: remove_model_from_cache_def split: prod.splits outcome.splits)
next
  assume "cache w = None"
  then show "snd (remove_model_from_cache framework model_name w) = w"
    by (simp add: remove_model_from_cache_def remove_model_try_def os_listdir_def)
next
  assume a: "cache w = Some es \<and> (\<forall>e\<in>set es. \<not> matches model_name (fst e))"
  then have "remove_matching model_name (map fst es) (Some es) = (Returned (), Some es)"
    by (intro remove_matching_no_match) auto
  with a show "snd (remove_model_from_cache framework model_name w) = w"
    by (simp add: remove_model_from_cache_def remove_model_try_def os_listdir_def)
qed

text \<open>
  The theorem at a missing directory and at a directory holding another model's file.
\<close>

theorem eviction_never_raises_witness:
  "fst (remove_model_from_cache ''pytorch'' ''resnet50'' world0) = Returned ()
   \<and> snd (remove_model_from_cache ''pytorch'' ''resnet50'' world0) = world0
   \<and> snd (remove_model_from_cache ''pytorch'' ''resnet50'' world_vgg) = world_vgg"
proof -
  have n: "cache world0 = None" by (simp add: world0_def)
  have m: "\<not> matches ''resnet50'' ''vgg16-397923af.pth''" by code_simp
  have s: "cache world_vgg = Some [(''vgg16-397923af.pth'', True)]
           \<and> (\<forall>e\<in>set [(''vgg16-397923af.pth'', True)]. \<not> matches ''resnet50'' (fst e))"
    using m by (simp add: world_vgg_def)
  show ?thesis
    using eviction_never_raises [of "''pytorch''" "''resnet50''" world0]
      eviction_never_raises [of "''pytorch''" "''resnet50''" world_vgg "[(''vgg16-397923af.pth'', True)]"]
      n s by blast
qed

text \<open>
  Claim C8 as stated fails when a removal fails: the first matching entry cannot be
  removed, the exception leaves the loop, and the matching file listed after it stays.
\<close>

theorem eviction_prefix_match_counterexample:
  "matches ''resnet50'' ''resnet50-19c8e357.pth''
   \<and> cache world_blocked = Some [(''resnet50-partial'', False), (''resnet50-19c8e357.pth'', True)]
   \<and> cache (snd (remove_model_from_cache ''pytorch'' ''resnet50'' world_blocked))
       = Some [(''resnet50-partial'', False), (''resnet50-19c8e357.pth'', True)]"
proof -
  have m1: "matches ''resnet50'' ''resnet50-19c8e357.pth''" by code_simp
  have m2: "matches ''resnet50'' ''resnet50-partial''" by code_simp
  show ?thesis using m1 m2
    by (simp add: world_blocked_def remove_model_from_cache_def remove_model_try_def
        os_listdir_def os_remove_def)
qed

lemma map_of_append_notin:
  "dm \<notin> fst ` set kept \<Longrightarrow> map_of (kept @ es) dm = map_of es dm"
  by (induction kept) auto

lemma filter_name_notin:
  "dm \<notin> fst ` set es \<Longrightarrow> filter (\<lambda>e. fst e \<noteq> dm) es = es"
  by (induction es) auto

lemma remove_matching_exact:
  "distinct (map fst (kept @ es)) \<Longrightarrow>
     remove_matching mn (map fst es) (Some (kept @ es))
       = (if dropWhile (\<lambda>e. \<not> matches mn (fst e) \<or> snd e) es = []
          then Returned () else Raised (OSError ''remove''),
          Some (kept @ filter (\<lambda>e. \<not> matches mn (fst e))
                          (takeWhile (\<lambda>e. \<not> matches mn (fst e) \<or> snd e) es)
                     @ dropWhile (\<lambda>e. \<not> matches mn (fst e) \<or> snd e) es))"
proof (induction es arbitrary: kept)
  case Nil
  show ?case by simp
next
  case (Cons e es)
  obtain dm fl where e: "e = (dm, fl)" by (cases e)
  from Cons.prems have nk: "dm \<notin> fst ` set kept" and ne: "dm \<notin> fst ` set es"
    by (auto simp: e)
  show ?case
  proof (cases "matches mn dm")
    case False
    have d: "distinct (map fst ((kept @ [e]) @ es))" using Cons.prems by simp
    from Cons.IH[OF d] False show ?thesis by (simp add: e)
  next
    case True
    show ?thesis
    proof (cases fl)
      case False
      have "map_of (kept @ e # es) dm = map_of (e # es) dm"
        using nk by (rule map_of_append_notin)
      then have "map_of (kept @ e # es) dm = Some False"
        by (simp only: e False map_of.simps fst_conv snd_conv fun_upd_same)
      then have "os_remove dm (Some (kept @ e # es)) = (Raised (OSError ''remove''), Some (kept @ e # es))"
        by (simp add: os_remove_def)
      with True False show ?thesis by (simp add: e)
    next
      case fl: True
      have "map_of (kept @ e # es) dm = map_of (e # es) dm"
        using nk by (rule map_of_append_notin)
      then have "map_of (kept @ e # es) dm = Some True"
        by (simp only: e fl map_of.simps fst_conv snd_conv fun_upd_same)
      moreover have "filter (\<lambda>x. fst x \<noteq> dm) (kept @ e # es) = kept @ es"
        using nk ne by (simp add: filter_name_notin e)
      ultimately have r: "os_remove dm (Some (kept @ e # es)) = (Returned (), Some (kept @ es))"
        by (simp add: os_remove_def)
      have d: "distinct (map fst (kept @ es))" using Cons.prems by simp
      from Cons.IH[OF d] True fl r show ?thesis by (simp add: e)
    qed
  qed
qed

text \<open>
  Claim C8, amended: for a backend tag other than \<open>pytorch\<close> eviction changes nothing.
  For \<open>pytorch\<close> with a listable directory, every entry it deletes has a normalised name
  that starts with the normalised model name, the other entries stay as they are and in
  their order; when no removal of a matching entry fails, it deletes exactly the matching
  entries; and in general a failing removal ends the loop: the matching entries listed
  before the first matching entry that cannot be removed are deleted, and that entry and
  every entry listed after it stay, matching or not.
\<close>

theorem eviction_prefix_match:
  "(framework \<noteq> ''pytorch'' \<longrightarrow> snd (remove_model_from_cache framework model_name w) = w)
   \<and> (cache w = Some es \<longrightarrow>
        (\<exists>es'. cache (snd (remove_model_from_cache ''pytorch'' model_name w)) = Some es'
           \<and> set es' \<subseteq> set es
           \<and> filter (\<lambda>e. \<not> matches model_name (fst e)) es'
               = filter (\<lambda>e. \<not> matches model_name (fst e)) es))
   \<and> (cache w = Some es \<and> distinct (map fst es)
        \<and> (\<forall>e\<in>set es. matches model_name (fst e) \<longrightarrow> snd e) \<longrightarrow>
        cache (snd (remove_model_from_cache ''pytorch'' model_name w))
          = Some (filter (\<lambda>e. \<not> matches model_name (fst e)) es))
   \<and> (cache w = Some es \<and> distinct (map fst es) \<longrightarrow>
        cache (snd (remove_model_from_cache ''pytorch'' model_name w))
          = Some (filter (\<lambda>e. \<not> matches model_name (fst e))
                    (takeWhile (\<lambda>e. \<not> matches model_name (fst e) \<or> snd e) es)
                  @ dropWhile (\<lambda>e. \<not> matches model_name (fst e) \<or> snd e) es))"
proof (intro conjI impI)
  assume "framework \<noteq> ''pytorch''"
  then show "snd (remove_model_from_cache framework model_name w) = w"
    by (simp add: remove_model_from_cache_def remove_model_try_def)
next
  assume c: "cache w = Some es"
  obtain r c' where rm: "remove_matching model_name (map fst es) (Some es) = (r, c')"
    by (cases "remove_matching model_name (map fst es) (Some es)")
  from remove_matching_only_matching[OF rm] obtain es' where
    "c' = Some es'" "set es' \<subseteq> set es"
    "filter (\<lambda>e. \<not> matches model_name (fst e)) es' = filter (\<lambda>e. \<not> matches model_name (fst e)) es"
    by blast
  moreover have "cache (snd (remove_model_from_cache ''pytorch'' model_name w)) = c'"
    using c rm by (cases r) (simp_all add: remove_model_from_cache_def remove_model_try_def os_listdir_def)
  ultimately show "\<exists>es'. cache (snd (remove_model_from_cache ''pytorch'' model_name w)) = Some es'
           \<and> set es' \<subseteq> set es
           \<and> filter (\<lambda>e. \<not> matches model_name (fst e)) es'
               = filter (\<lambda>e. \<not> matches model_name (fst e)) es"
    by simp
next
  assume a: "cache w = Some es \<and> distinct (map fst es)
        \<and> (\<forall>e\<in>set es. matches model_name (fst e) \<longrightarrow> snd e)"
  then have "remove_matching model_name (map fst es) (Some es)
     = (Returned (), Some (filter (\<lambda>e. \<not> (matches model_name (fst e) \<and> fst e \<in> set (map fst es))) es))"
    by (intro remove_matching_all) auto
  moreover have "filter (\<lambda>e. \<not> (matches model_name (fst e) \<and> fst e \<in> set (map fst es))) es
      = filter (\<lambda>e. \<not> matches model_name (fst e)) es"
    by (auto intro: filter_cong)
  ultimately show "cache (snd (remove_model_from_cache ''pytorch'' model_name w))
          = Some (filter (\<lambda>e. \<not> matches model_name (fst e)) es)"
    using a by (simp add: remove_model_from_cache_def remove_model_try_def os_listdir_def)
next
  assume a: "cache w = Some es \<and> distinct (map fst es)"
  then have d: "distinct (map fst ([] @ es))" by simp
  from remove_matching_exact[OF d, of model_name] a
  show "cache (snd (remove_model_from_cache ''pytorch'' model_name w))
          = Some (filter (\<lambda>e. \<not> matches model_name (fst e))
                    (takeWhile (\<lambda>e. \<not> matches model_name (fst e) \<or> snd e) es)
                  @ dropWhile (\<lambda>e. \<not> matches model_name (fst e) \<or> snd e) es)"
    by (simp add: remove_model_from_cache_def remove_model_try_def os_listdir_def)
qed

text \<open>
  The theorem at a directory with two files of the model (one in upper case, one with an
  underscore suffix) and one file of another model, and at a directory in which an entry
  of the model that cannot be removed is listed before another file of the model.
\<close>

theorem eviction_prefix_match_witness:
  "snd (remove_model_from_cache ''tensorflow'' ''resnet50'' world_resnet) = world_resnet
   \<and> cache (snd (remove_model_from_cache ''pytorch'' ''resnet50'' world_resnet))
       = Some [(''vgg16-397923af.pth'', True)]
   \<and> cache (snd (remove_model_from_cache ''pytorch'' ''resnet50'' world_mixed))
       = Some [(''vgg16-397923af.pth'', True), (''resnet50-partial'', False),
               (''resnet50_swsl-a1b2.pth'', True)]"
proof -
  let ?es = "[(''ResNet50-19c8e357.pth'', True), (''vgg16-397923af.pth'', True),
                   (''resnet50_swsl-a1b2.pth'', True)]"
  let ?ms = "[(''resnet50-19c8e357.pth'', True), (''vgg16-397923af.pth'', True),
                   (''resnet50-partial'', False), (''resnet50_swsl-a1b2.pth'', True)]"
  have m1: "matches ''resnet50'' ''ResNet50-19c8e357.pth''" by code_simp
  have m2: "\<not> matches ''resnet50'' ''vgg16-397923af.pth''" by code_simp
  have m3: "matches ''resnet50'' ''resnet50_swsl-a1b2.pth''" by code_simp
  have m4: "matches ''resnet50'' ''resnet50-19c8e357.pth''" by code_simp
  have m5: "matches ''resnet50'' ''resnet50-partial''" by code_simp
  have h1: "''tensorflow'' \<noteq> ''pytorch''" by simp
  have h2: "cache world_resnet = Some ?es \<and> distinct (map fst ?es)
        \<and> (\<forall>e\<in>set ?es. matches ''resnet50'' (fst e) \<longrightarrow> snd e)"
    by (simp add: world_resnet_def)
  have f: "filter (\<lambda>e. \<not> matches ''resnet50'' (fst e)) ?es = [(''vgg16-397923af.pth'', True)]"
    using m1 m2 m3 by simp
  have h3: "cache world_mixed = Some ?ms \<and> distinct (map fst ?ms)"
    by (simp add: world_mixed_def)
  have g: "filter (\<lambda>e. \<not> matches ''resnet50'' (fst e))
                    (takeWhile (\<lambda>e. \<not> matches ''resnet50'' (fst e) \<or> snd e) ?ms)
                  @ dropWhile (\<lambda>e. \<not> matches ''resnet50'' (fst e) \<or> snd e) ?ms
       = [(''vgg16-397923af.pth'', True), (''resnet50-partial'', False),
               (''resnet50_swsl-a1b2.pth'', True)]"
    using m2 m3 m4 m5 by simp
  from eviction_prefix_match [of "''tensorflow''" "''resnet50''" world_resnet ?es] h1 h2 f
  have a: "snd (remove_model_from_cache ''tensorflow'' ''resnet50'' world_resnet) = world_resnet"
    and b: "cache (snd (remove_model_from_cache ''pytorch'' ''resnet50'' world_resnet))
       = Some [(''vgg16-397923af.pth'', True)]" by simp_all
  from eviction_prefix_match [of "''tensorflow''" "''resnet50''" world_mixed ?ms] h3 g
  have c: "cache (snd (remove_model_from_cache ''pytorch'' ''resnet50'' world_mixed))
       = Some [(''vgg16-397923af.pth'', True), (''resnet50-partial'', False),
               (''resnet50_swsl-a1b2.pth'', True)]" by simp
  from a b c show ?thesis by simp
qed

section \<open>Properties of backend selection\<close>

text \<open>
  Claim C6 as stated fails for the extractor: for the recognised tag \<open>tensorflow\<close>,
  \<open>_get_extractor\<close> raises a value error instead of returning a backend function.
\<close>

theorem extractor_selection_counterexample:
  "get_extractor ''tensorflow'' = Raised (ValueError ''Tensorflow is not supported'')"
  by (simp add: get_extractor_def)

text \<open>
  Claim C6, amended: for every backend tag that is neither \<open>tensorflow\<close> nor \<open>pytorch\<close>,
  selecting an evaluator or an extractor fails with a naming error, which leaves the loop
  over the models with the state as it was; \<open>_get_evaluator\<close> returns the matching
  evaluator for both recognised tags, and \<open>_get_extractor\<close> returns the extractor for
  \<open>pytorch\<close> and raises a value error for \<open>tensorflow\<close>.
\<close>

theorem backend_selection:
  "get_evaluator ''tensorflow'' = Returned TensorflowEvaluator
   \<and> get_evaluator ''pytorch'' = Returned PytorchEvaluator
   \<and> get_extractor ''pytorch'' = Returned PytorchExtractor
   \<and> get_extractor ''tensorflow'' = Raised (ValueError ''Tensorflow is not supported'')
   \<and> (framework \<noteq> ''tensorflow'' \<and> framework \<noteq> ''pytorch'' \<longrightarrow>
        get_evaluator framework = Raised (NameError ''Unsupported evaluator'')
        \<and> get_extractor framework = Raised (NameError ''Unsupported extractor'')
        \<and> (load_model E model_name = Returned (M, framework) \<longrightarrow>
             model_loop E kw n (model_name # rest) ds w
               = (Raised (NameError ''Unsupported evaluator''), w)
             \<and> extract_loop E kw n (model_name # rest) ds w
               = (Raised (NameError ''Unsupported extractor''), w)
             \<and> ModelEvaluator_call E kw (model_name # rest) dataset_names w
               = (case get_datasets E dataset_names w of
                    (Raised e, w1) \<Rightarrow> (Raised e, w1)
                  | (Returned ds', w1) \<Rightarrow> (Raised (NameError ''Unsupported evaluator''), w1))
             \<and> MetricExtractor_call E kw (model_name # rest) dataset_names w
               = (case get_datasets E dataset_names w of
                    (Raised e, w1) \<Rightarrow> (Raised e, w1)
                  | (Returned ds', w1) \<Rightarrow> (Raised (NameError ''Unsupported extractor''), w1))))"
  by (simp add: get_evaluator_def get_extractor_def model_step_def extract_step_def
      ModelEvaluator_call_def MetricExtractor_call_def split: prod.splits outcome.splits)

text \<open>The theorem at the tag \<open>jax\<close>, for a run whose first model has that backend.\<close>

theorem backend_selection_witness:
  "get_evaluator ''jax'' = Raised (NameError ''Unsupported evaluator'')
   \<and> get_extractor ''jax'' = Raised (NameError ''Unsupported extractor'')
   \<and> model_loop env0 kwargs_off 2 [''flaxnet'', ''resnet50''] [0] world1
        = (Raised (NameError ''Unsupported evaluator''), world1)
   \<and> extract_loop env0 kwargs_off 2 [''flaxnet'', ''resnet50''] [0] world1
        = (Raised (NameError ''Unsupported extractor''), world1)
   \<and> ModelEvaluator_call env0 kwargs_off [''flaxnet'', ''resnet50''] [''cue-conflict''] world0
        = (Raised (NameError ''Unsupported evaluator''), world1)
   \<and> MetricExtractor_call env0 kwargs_off [''flaxnet'', ''resnet50''] [''cue-conflict''] world0
        = (Raised (NameError ''Unsupported extractor''), world1)"
proof -
  have h: "''jax'' \<noteq> ''tensorflow'' \<and> ''jax'' \<noteq> ''pytorch''" by simp
  have l: "load_model env0 ''flaxnet'' = Returned (model0, ''jax'')" by (simp add: env0_def)
  have g: "get_datasets env0 [''cue-conflict''] world0 = (Returned [0], world1)"
    by (simp add: env0_def world0_def world1_def)
  from backend_selection [of "''jax''" env0 "''flaxnet''" model0 kwargs_off 2 "[''resnet50'']"
      "[0]" world1]
    backend_selection [where framework = "''jax''" and E = env0 and model_name = "''flaxnet''"
      and M = model0 and kw = kwargs_off and rest = "[''resnet50'']"
      and dataset_names = "[''cue-conflict'']" and w = world0]
    h l g show ?thesis by simp
qed

text \<open>
  Claim C5: in extraction mode, a model whose backend tag is \<open>tensorflow\<close> fails with a
  value error that leaves the loop over the models and the orchestrator; the state is
  the one in which the model was reached, so no batch of any dataset was processed for it.
\<close>

theorem extraction_rejects_tensorflow:
  "load_model E model_name = Returned (M, ''tensorflow'') \<Longrightarrow>
     extract_step E kw n model_name ds w = (Raised (ValueError ''Tensorflow is not supported''), w)
     \<and> extract_loop E kw n (model_name # rest) ds w
          = (Raised (ValueError ''Tensorflow is not supported''), w)
     \<and> MetricExtractor_call E kw (model_name # rest) dataset_names w
          = (case get_datasets E dataset_names w of
               (Raised e, w1) \<Rightarrow> (Raised e, w1)
             | (Returned ds', w1) \<Rightarrow> (Raised (ValueError ''Tensorflow is not supported''), w1))"
  by (simp add: extract_step_def get_extractor_def MetricExtractor_call_def split: prod.splits outcome.splits)

text \<open>The theorem at a run whose only model has the tensorflow backend.\<close>

theorem extraction_rejects_tensorflow_witness:
  "extract_step env0 kwargs_on 1 ''bit_m'' [0] world1
      = (Raised (ValueError ''Tensorflow is not supported''), world1)
   \<and> extract_loop env0 kwargs_on 1 [''bit_m''] [0] world1
      = (Raised (ValueError ''Tensorflow is not supported''), world1)
   \<and> MetricExtractor_call env0 kwargs_on [''bit_m''] [''cue-conflict''] world0
      = (Raised (ValueError ''Tensorflow is not supported''), world1)"
proof -
  have l: "load_model env0 ''bit_m'' = Returned (model0, ''tensorflow'')" by (simp add: env0_def)
  have g: "get_datasets env0 [''cue-conflict''] world0 = (Returned [0], world1)"
    by (simp add: env0_def world0_def world1_def)
  from extraction_rejects_tensorflow [OF l, where kw = kwargs_on and n = 1 and ds = "[0]"
        and w = world1 and rest = "[]"]
    extraction_rejects_tensorflow [OF l, where kw = kwargs_on and rest = "[]"
        and dataset_names = "[''cue-conflict'']" and w = world0]
    g show ?thesis by simp
qed

section \<open>Properties of the backend evaluators\<close>

lemma update_metrics_fields [simp]:
  "length (heap (update_metrics u a w)) = length (heap w)"
  "cache (update_metrics u a w) = cache w"
  "csv (update_metrics u a w) = csv w"
  "evictions (update_metrics u a w) = evictions w"
  by (simp_all add: update_metrics_def)

lemma update_metrics_at:
  "a < length (heap w) \<Longrightarrow>
     heap (update_metrics u a w) ! a = (heap w ! a)\<lparr>metrics := map (update u) (metrics (heap w ! a))\<rparr>"
  by (simp add: update_metrics_def)

lemma reset_metrics_fields [simp]:
  "length (heap (reset_metrics a w)) = length (heap w)"
  "cache (reset_metrics a w) = cache w"
  "csv (reset_metrics a w) = csv w"
  "evictions (reset_metrics a w) = evictions w"
  by (simp_all add: reset_metrics_def)

lemma reset_metrics_at:
  "a < length (heap w) \<Longrightarrow>
     heap (reset_metrics a w) ! a = (heap w ! a)\<lparr>metrics := map reset (metrics (heap w ! a))\<rparr>"
  by (simp add: reset_metrics_def)

lemma reset_metrics_loader [simp]:
  "loader (heap (reset_metrics a w) ! a) = loader (heap w ! a)"
proof (cases "a < length (heap w)")
  case True
  then show ?thesis by (simp add: reset_metrics_def)
next
  case False
  then have "length (heap w) \<le> a" by simp
  then have "heap (reset_metrics a w) = heap w"
    unfolding reset_metrics_def by (simp del: list_update_beyond add: list_update_beyond[of "heap w" a])
  then show ?thesis by simp
qed

lemma print_batch_fields [simp]:
  "heap (print_batch_to_csv mn a p t ps w) = heap w"
  "cache (print_batch_to_csv mn a p t ps w) = cache w"
  "evictions (print_batch_to_csv mn a p t ps w) = evictions w"
  by (simp_all add: print_batch_to_csv_def)

lemma pytorch_loop_updates:
  "a < length (heap w) \<Longrightarrow> pytorch_loop E kw mn M a bs w = (Returned (), w') \<Longrightarrow>
     length (heap w') = length (heap w) \<and>
     (\<exists>us. length us = length bs \<and>
        metrics (heap w' ! a) = map (\<lambda>m. m\<lparr>m_updates := m_updates m @ us\<rparr>) (metrics (heap w ! a)))"
proof (induction bs arbitrary: w)
  case Nil
  then show ?case by auto
next
  case (Cons b bs)
  obtain images target paths where b: "b = (images, target, paths)" by (cases b)
  define u where "u = Update (dm_call (decision_mapping (heap w ! a))
      (softmax M (forward_batch M (to_device E images))))
      (case target of TorchTensor t \<Rightarrow> Plain (to_numpy M t) | Plain t \<Rightarrow> Plain t) paths"
  define w1 where "w1 = update_metrics u a w"
  from Cons.prems(2) obtain pp where pp: "getitem kw ''print_predictions'' = Returned pp"
    by (cases "getitem kw ''print_predictions''") (simp_all add: b Let_def)
  define w2 where "w2 = (if pp then print_batch_to_csv mn a
      (dm_call (decision_mapping (heap w ! a)) (softmax M (forward_batch M (to_device E images))))
      (case target of TorchTensor t \<Rightarrow> Plain (to_numpy M t) | Plain t \<Rightarrow> Plain t) paths w1 else w1)"
  have rec: "pytorch_loop E kw mn M a bs w2 = (Returned (), w')"
    using Cons.prems(2) pp by (cases pp) (simp_all add: b Let_def w2_def w1_def u_def)
  have h2: "heap w2 = heap w1" by (simp add: w2_def)
  have len: "a < length (heap w2)" using Cons.prems(1) by (simp add: h2 w1_def)
  from Cons.IH[OF len rec] obtain us where
    l: "length (heap w') = length (heap w2)" and us: "length us = length bs"
    and m: "metrics (heap w' ! a) = map (\<lambda>m. m\<lparr>m_updates := m_updates m @ us\<rparr>) (metrics (heap w2 ! a))"
    by blast
  have m1: "metrics (heap w2 ! a) = map (update u) (metrics (heap w ! a))"
    using Cons.prems(1) by (simp add: h2 w1_def update_metrics_at)
  have "metrics (heap w' ! a) = map (\<lambda>m. m\<lparr>m_updates := m_updates m @ (u # us)\<rparr>) (metrics (heap w ! a))"
    by (simp add: m m1 update_def)
  moreover have "length (u # us) = length (b # bs)" using us by simp
  moreover have "length (heap w') = length (heap w)" using l by (simp add: h2 w1_def)
  ultimately show ?case by blast
qed

lemma tensorflow_loop_updates:
  "a < length (heap w) \<Longrightarrow> tensorflow_loop E kw mn M a bs w = (Returned (), w') \<Longrightarrow>
     length (heap w') = length (heap w) \<and>
     (\<exists>us. length us = length bs \<and>
        metrics (heap w' ! a) = map (\<lambda>m. m\<lparr>m_updates := m_updates m @ us\<rparr>) (metrics (heap w ! a)))"
proof (induction bs arbitrary: w)
  case Nil
  then show ?case by auto
next
  case (Cons b bs)
  obtain images target paths where b: "b = (images, target, paths)" by (cases b)
  define u where "u = Update (dm_call (decision_mapping (heap w ! a))
      (softmax M (forward_batch M images))) target paths"
  define w1 where "w1 = update_metrics u a w"
  from Cons.prems(2) obtain pp where pp: "getitem kw ''print_predictions'' = Returned pp"
    by (cases "getitem kw ''print_predictions''") (simp_all add: b Let_def)
  define w2 where "w2 = (if pp then print_batch_to_csv mn a
      (dm_call (decision_mapping (heap w ! a)) (softmax M (forward_batch M images)))
      target paths w1 else w1)"
  have rec: "tensorflow_loop E kw mn M a bs w2 = (Returned (), w')"
    using Cons.prems(2) pp by (cases pp) (simp_all add: b Let_def w2_def w1_def u_def)
  have h2: "heap w2 = heap w1" by (simp add: w2_def)
  have len: "a < length (heap w2)" using Cons.prems(1) by (simp add: h2 w1_def)
  from Cons.IH[OF len rec] obtain us where
    l: "length (heap w') = length (heap w2)" and us: "length us = length bs"
    and m: "metrics (heap w' ! a) = map (\<lambda>m. m\<lparr>m_updates := m_updates m @ us\<rparr>) (metrics (heap w2 ! a))"
    by blast
  have m1: "metrics (heap w2 ! a) = map (update u) (metrics (heap w ! a))"
    using Cons.prems(1) by (simp add: h2 w1_def update_metrics_at)
  have "metrics (heap w' ! a) = map (\<lambda>m. m\<lparr>m_updates := m_updates m @ (u # us)\<rparr>) (metrics (heap w ! a))"
    by (simp add: m m1 update_def)
  moreover have "length (u # us) = length (b # bs)" using us by simp
  moreover have "length (heap w') = length (heap w)" using l by (simp add: h2 w1_def)
  ultimately show ?case by blast
qed

lemma pytorch_loop_outcome:
  "fst (pytorch_loop E kw mn M a bs w) =
     (if bs = [] then Returned ()
      else case kw ''print_predictions'' of None \<Rightarrow> Raised (KeyError ''print_predictions'')
           | Some v \<Rightarrow> Returned ())"
proof (induction bs arbitrary: w)
  case Nil
  show ?case by simp
next
  case (Cons b bs)
  obtain images target paths where b: "b = (images, target, paths)" by (cases b)
  show ?case
    by (cases "kw ''print_predictions''") (simp_all add: b Let_def getitem_def Cons.IH)
qed

lemma tensorflow_loop_outcome:
  "fst (tensorflow_loop E kw mn M a bs w) =
     (if bs = [] then Returned ()
      else case kw ''print_predictions'' of None \<Rightarrow> Raised (KeyError ''print_predictions'')
           | Some v \<Rightarrow> Returned ())"
proof (induction bs arbitrary: w)
  case Nil
  show ?case by simp
next
  case (Cons b bs)
  obtain images target paths where b: "b = (images, target, paths)" by (cases b)
  show ?case
    by (cases "kw ''print_predictions''") (simp_all add: b Let_def getitem_def Cons.IH)
qed

lemma run_evaluator_outcome:
  "fst (run_evaluator ev E kw mn M a w) =
     (if batches_of E (loader (heap w ! a)) = [] then Returned ()
      else case kw ''print_predictions'' of None \<Rightarrow> Raised (KeyError ''print_predictions'')
           | Some v \<Rightarrow> Returned ())"
  by (cases ev)
    (simp_all add: pytorch_evaluator_def tensorflow_evaluator_def
      pytorch_loop_outcome tensorflow_loop_outcome)

lemma reset_eq_iff1: "(reset m = reset m') = (m_class m = m_class m')"
  by (cases m; cases m') (simp add: reset_def)

lemma reset_eq_iff: "map reset ms = map reset ms' \<longleftrightarrow> map m_class ms = map m_class ms'"
proof (induction ms arbitrary: ms')
  case Nil
  show ?case by simp
next
  case (Cons m ms)
  show ?case
  proof (cases ms')
    case Nil
    then show ?thesis by simp
  next
    case (Cons m' ms'')
    with Cons.IH[of ms''] show ?thesis by (simp add: reset_eq_iff1)
  qed
qed

lemma pytorch_loop_updates_any:
  assumes "a < length (heap w)"
  shows "\<exists>us. length us = (if kw ''print_predictions'' = None then min 1 (length bs) else length bs)
     \<and> metrics (heap (snd (pytorch_loop E kw mn M a bs w)) ! a)
         = map (\<lambda>m. m\<lparr>m_updates := m_updates m @ us\<rparr>) (metrics (heap w ! a))"
proof (cases "kw ''print_predictions''")
  case None
  show ?thesis
  proof (cases bs)
    case Nil
    have "metrics (heap w ! a) = map (\<lambda>m. m\<lparr>m_updates := m_updates m @ []\<rparr>) (metrics (heap w ! a))"
      by simp
    with None Nil show ?thesis by (intro exI[of _ "[]"]) simp
  next
    case (Cons b bs')
    obtain images target paths where b: "b = (images, target, paths)" by (cases b)
    define u where "u = Update (dm_call (decision_mapping (heap w ! a))
        (softmax M (forward_batch M (to_device E images))))
        (case target of TorchTensor t \<Rightarrow> Plain (to_numpy M t) | Plain t \<Rightarrow> Plain t) paths"
    have "snd (pytorch_loop E kw mn M a bs w) = update_metrics u a w"
      using None by (simp add: Cons b Let_def getitem_def u_def)
    then have "metrics (heap (snd (pytorch_loop E kw mn M a bs w)) ! a)
        = map (\<lambda>m. m\<lparr>m_updates := m_updates m @ [u]\<rparr>) (metrics (heap w ! a))"
      using assms by (simp add: update_metrics_at update_def)
    with None Cons show ?thesis by (intro exI[of _ "[u]"]) simp
  qed
next
  case (Some v)
  then have "fst (pytorch_loop E kw mn M a bs w) = Returned ()"
    by (simp add: pytorch_loop_outcome)
  then have "pytorch_loop E kw mn M a bs w = (Returned (), snd (pytorch_loop E kw mn M a bs w))"
    by (metis prod.collapse)
  from pytorch_loop_updates[OF assms this] Some show ?thesis by auto
qed

lemma tensorflow_loop_updates_any:
  assumes "a < length (heap w)"
  shows "\<exists>us. length us = (if kw ''print_predictions'' = None then min 1 (length bs) else length bs)
     \<and> metrics (heap (snd (tensorflow_loop E kw mn M a bs w)) ! a)
         = map (\<lambda>m. m\<lparr>m_updates := m_updates m @ us\<rparr>) (metrics (heap w ! a))"
proof (cases "kw ''print_predictions''")
  case None
  show ?thesis
  proof (cases bs)
    case Nil
    have "metrics (heap w ! a) = map (\<lambda>m. m\<lparr>m_updates := m_updates m @ []\<rparr>) (metrics (heap w ! a))"
      by simp
    with None Nil show ?thesis by (intro exI[of _ "[]"]) simp
  next
    case (Cons b bs')
    obtain images target paths where b: "b = (images, target, paths)" by (cases b)
    define u where "u = Update (dm_call (decision_mapping (heap w ! a))
        (softmax M (forward_batch M images))) target paths"
    have "snd (tensorflow_loop E kw mn M a bs w) = update_metrics u a w"
      using None by (simp add: Cons b Let_def getitem_def u_def)
    then have "metrics (heap (snd (tensorflow_loop E kw mn M a bs w)) ! a)
        = map (\<lambda>m. m\<lparr>m_updates := m_updates m @ [u]\<rparr>) (metrics (heap w ! a))"
      using assms by (simp add: update_metrics_at update_def)
    with None Cons show ?thesis by (intro exI[of _ "[u]"]) simp
  qed
next
  case (Some v)
  then have "fst (tensorflow_loop E kw mn M a bs w) = Returned ()"
    by (simp add: tensorflow_loop_outcome)
  then have "tensorflow_loop E kw mn M a bs w = (Returned (), snd (tensorflow_loop E kw mn M a bs w))"
    by (metis prod.collapse)
  from tensorflow_loop_updates[OF assms this] Some show ?thesis by auto
qed

lemma run_evaluator_updates_any:
  assumes "a < length (heap w)"
  shows "\<exists>us. length us = (if kw ''print_predictions'' = None
                            then min 1 (length (batches_of E (loader (heap w ! a))))
                            else length (batches_of E (loader (heap w ! a))))
     \<and> metrics (heap (snd (run_evaluator ev E kw mn M a w)) ! a)
         = map (\<lambda>m. m\<lparr>m_updates := us\<rparr>) (metrics (heap w ! a))"
proof -
  let ?w1 = "reset_metrics a w"
  let ?bs = "batches_of E (loader (heap w ! a))"
  have a1: "a < length (heap ?w1)" using assms by simp
  have m0: "metrics (heap ?w1 ! a) = map reset (metrics (heap w ! a))"
    using assms by (simp add: reset_metrics_at)
  have "\<exists>us. length us = (if kw ''print_predictions'' = None then min 1 (length ?bs) else length ?bs)
     \<and> metrics (heap (snd (run_evaluator ev E kw mn M a w)) ! a)
         = map (\<lambda>m. m\<lparr>m_updates := m_updates m @ us\<rparr>) (metrics (heap ?w1 ! a))"
  proof (cases ev)
    case TensorflowEvaluator
    with tensorflow_loop_updates_any[OF a1, of kw ?bs E mn M] show ?thesis
      by (simp add: tensorflow_evaluator_def)
  next
    case PytorchEvaluator
    with pytorch_loop_updates_any[OF a1, of kw ?bs E mn M] show ?thesis
      by (simp add: pytorch_evaluator_def)
  qed
  then obtain us where
    l: "length us = (if kw ''print_predictions'' = None then min 1 (length ?bs) else length ?bs)"
    and m: "metrics (heap (snd (run_evaluator ev E kw mn M a w)) ! a)
         = map (\<lambda>m. m\<lparr>m_updates := m_updates m @ us\<rparr>) (metrics (heap ?w1 ! a))"
    by blast
  have "metrics (heap (snd (run_evaluator ev E kw mn M a w)) ! a)
         = map (\<lambda>m. m\<lparr>m_updates := us\<rparr>) (metrics (heap w ! a))"
    by (simp add: m m0 reset_def)
  with l show ?thesis by blast
qed

text \<open>
  Claim C2: both evaluators reset every metric accumulator of the dataset before the batch
  loop. The outcome and the resulting state of an evaluation pass do not depend on what
  the accumulators held before: replacing the accumulated updates of the dataset's metrics
  by any others gives the same result. And whatever the pass finds in the accumulators,
  it leaves in each of them the updates of this pass alone, one per batch it processed:
  the metric list keeps its accumulators, and each holds the same sequence of updates,
  as many as the loader's batches (or the first batch only, when the pass stops at the
  missing option \<open>print_predictions\<close>).
\<close>

theorem metrics_reset_before_pass:
  "a < length (heap w) \<Longrightarrow> map m_class ms = map m_class (metrics (heap w ! a)) \<Longrightarrow>
     run_evaluator ev E kw mn M a (w\<lparr>heap := (heap w)[a := (heap w ! a)\<lparr>metrics := ms\<rparr>]\<rparr>)
       = run_evaluator ev E kw mn M a w
     \<and> (\<exists>us. length us = (if kw ''print_predictions'' = None
                            then min 1 (length (batches_of E (loader (heap w ! a))))
                            else length (batches_of E (loader (heap w ! a))))
          \<and> metrics (heap (snd (run_evaluator ev E kw mn M a w)) ! a)
              = map (\<lambda>m. m\<lparr>m_updates := us\<rparr>) (metrics (heap w ! a)))"
proof (intro conjI)
  assume a: "a < length (heap w)" and c: "map m_class ms = map m_class (metrics (heap w ! a))"
  let ?w = "w\<lparr>heap := (heap w)[a := (heap w ! a)\<lparr>metrics := ms\<rparr>]\<rparr>"
  have e: "map reset ms = map reset (metrics (heap w ! a))"
    using c by (simp only: reset_eq_iff)
  have r: "reset_metrics a ?w = reset_metrics a w"
    using a by (simp add: reset_metrics_def e)
  have l: "loader (heap ?w ! a) = loader (heap w ! a)" using a by simp
  show "run_evaluator ev E kw mn M a ?w = run_evaluator ev E kw mn M a w"
    by (cases ev) (simp_all only: run_evaluator.simps pytorch_evaluator_def
        tensorflow_evaluator_def Let_def r)
  show "\<exists>us. length us = (if kw ''print_predictions'' = None
                            then min 1 (length (batches_of E (loader (heap w ! a))))
                            else length (batches_of E (loader (heap w ! a))))
          \<and> metrics (heap (snd (run_evaluator ev E kw mn M a w)) ! a)
              = map (\<lambda>m. m\<lparr>m_updates := us\<rparr>) (metrics (heap w ! a))"
    using a by (rule run_evaluator_updates_any)
qed

text \<open>
  The theorem at a dataset of two batches whose accuracy metric still holds an update of
  an earlier model: after the pass it holds two updates, not three.
\<close>

theorem metrics_reset_before_pass_witness:
  "run_evaluator PytorchEvaluator env0 kwargs_off ''vgg16'' model0 0 world_stale
     = run_evaluator PytorchEvaluator env0 kwargs_off ''vgg16'' model0 0 world1
   \<and> run_evaluator TensorflowEvaluator env0 kwargs_off ''bit_m'' model0 0 world_stale
     = run_evaluator TensorflowEvaluator env0 kwargs_off ''bit_m'' model0 0 world1
   \<and> map (\<lambda>m. length (m_updates m)) (metrics (heap world_stale ! 0)) = [1]
   \<and> map (\<lambda>m. length (m_updates m))
        (metrics (heap (snd (run_evaluator PytorchEvaluator env0 kwargs_off ''vgg16'' model0 0
           world_stale)) ! 0)) = [2]"
proof -
  let ?ms = "[\<lparr>m_class = OtherMetric ''accuracy'',
         m_updates = [Update (Decisions (9::nat)) (Plain 9) [''old.png'']]\<rparr>]"
  have a: "0 < length (heap world1)" by (simp add: world1_def)
  have c: "map m_class ?ms = map m_class (metrics (heap world1 ! 0))"
    by (simp add: world1_def dataset0_def)
  have s: "world1\<lparr>heap := (heap world1)[0 := (heap world1 ! 0)\<lparr>metrics := ?ms\<rparr>]\<rparr> = world_stale"
    by (simp add: world1_def world_stale_def)
  have a': "0 < length (heap world_stale)" by (simp add: world_stale_def)
  have c': "map m_class ?ms = map m_class (metrics (heap world_stale ! 0))"
    by (simp add: world_stale_def dataset0_def)
  have k: "kwargs_off ''print_predictions'' \<noteq> None" by (simp add: kwargs_off_def)
  have b: "length (batches_of env0 (loader (heap world_stale ! 0))) = 2"
    by (simp add: world_stale_def dataset0_def)
  have o: "map (\<lambda>m. length (m_updates m)) (metrics (heap world_stale ! 0)) = [1]"
    by (simp add: world_stale_def)
  have ml: "length (metrics (heap world_stale ! 0)) = 1" by (simp add: world_stale_def)
  from metrics_reset_before_pass [OF a' c', of PytorchEvaluator env0 kwargs_off "''vgg16''" model0]
    k b
  obtain us where "length us = 2"
    "metrics (heap (snd (run_evaluator PytorchEvaluator env0 kwargs_off ''vgg16'' model0 0
           world_stale)) ! 0) = map (\<lambda>m. m\<lparr>m_updates := us\<rparr>) (metrics (heap world_stale ! 0))"
    by auto
  then have n: "map (\<lambda>m. length (m_updates m))
        (metrics (heap (snd (run_evaluator PytorchEvaluator env0 kwargs_off ''vgg16'' model0 0
           world_stale)) ! 0)) = [2]"
    using ml by (cases "metrics (heap world_stale ! 0)") (simp_all add: comp_def)
  with metrics_reset_before_pass [OF a c, of PytorchEvaluator env0 kwargs_off "''vgg16''" model0]
    metrics_reset_before_pass [OF a c, of TensorflowEvaluator env0 kwargs_off "''bit_m''" model0]
    s o show ?thesis by simp
qed

text \<open>
  Claim C3 as stated fails for a pass without the option \<open>print_predictions\<close>: the
  subscript of line 62 raises after the metric updates of the first batch, so a loader of
  two batches leaves one update in the accumulator.
\<close>

theorem one_update_per_batch_counterexample:
  "length (batches_of env0 (loader (heap world1 ! 0))) = 2
   \<and> fst (run_evaluator PytorchEvaluator env0 kwargs_none ''resnet50'' model0 0 world1)
       = Raised (KeyError ''print_predictions'')
   \<and> map (\<lambda>m. length (m_updates m))
        (metrics (heap (snd (run_evaluator PytorchEvaluator env0 kwargs_none ''resnet50'' model0 0
           world1)) ! 0)) = [1]"
  by code_simp

text \<open>
  Claim C3, amended: in an evaluation pass of either backend evaluator every metric
  accumulator of the dataset receives exactly one update per batch the pass processes.
  When the option \<open>print_predictions\<close> is present the pass returns and the number of
  updates of each accumulator is the number of batches of the loader; when it is missing
  and the loader is not empty, the pass raises a key error at its first batch and each
  accumulator holds the update of that batch only.
\<close>

theorem one_update_per_processed_batch:
  "a < length (heap w) \<Longrightarrow>
     fst (run_evaluator ev E kw mn M a w)
       = (if batches_of E (loader (heap w ! a)) = [] then Returned ()
          else case kw ''print_predictions'' of
                 None \<Rightarrow> Raised (KeyError ''print_predictions'')
               | Some v \<Rightarrow> Returned ())
     \<and> map m_class (metrics (heap (snd (run_evaluator ev E kw mn M a w)) ! a))
         = map m_class (metrics (heap w ! a))
     \<and> (\<forall>m\<in>set (metrics (heap (snd (run_evaluator ev E kw mn M a w)) ! a)).
           length (m_updates m)
             = (if kw ''print_predictions'' = None
                then min 1 (length (batches_of E (loader (heap w ! a))))
                else length (batches_of E (loader (heap w ! a)))))"
proof (intro conjI)
  assume a: "a < length (heap w)"
  show "fst (run_evaluator ev E kw mn M a w)
       = (if batches_of E (loader (heap w ! a)) = [] then Returned ()
          else case kw ''print_predictions'' of
                 None \<Rightarrow> Raised (KeyError ''print_predictions'')
               | Some v \<Rightarrow> Returned ())"
    by (rule run_evaluator_outcome)
  from run_evaluator_updates_any[OF a, of kw E ev mn M] obtain us where
    u: "length us = (if kw ''print_predictions'' = None
                            then min 1 (length (batches_of E (loader (heap w ! a))))
                            else length (batches_of E (loader (heap w ! a))))"
    and m: "metrics (heap (snd (run_evaluator ev E kw mn M a w)) ! a)
         = map (\<lambda>m. m\<lparr>m_updates := us\<rparr>) (metrics (heap w ! a))"
    by blast
  show "map m_class (metrics (heap (snd (run_evaluator ev E kw mn M a w)) ! a))
         = map m_class (metrics (heap w ! a))"
    by (simp add: m)
  show "\<forall>m\<in>set (metrics (heap (snd (run_evaluator ev E kw mn M a w)) ! a)).
           length (m_updates m)
             = (if kw ''print_predictions'' = None
                then min 1 (length (batches_of E (loader (heap w ! a))))
                else length (batches_of E (loader (heap w ! a))))"
    unfolding m using u by auto
qed

text \<open>
  The theorem at a dataset of two batches and one metric, with the option present and
  with the option missing.
\<close>

theorem one_update_per_processed_batch_witness:
  "length (batches_of env0 (loader (heap world1 ! 0))) = 2
   \<and> fst (run_evaluator PytorchEvaluator env0 kwargs_off ''resnet50'' model0 0 world1) = Returned ()
   \<and> map (\<lambda>m. length (m_updates m))
        (metrics (heap (snd (run_evaluator PytorchEvaluator env0 kwargs_off ''resnet50'' model0 0 world1)) ! 0))
       = [2]
   \<and> fst (run_evaluator TensorflowEvaluator env0 kwargs_none ''bit_m'' model0 0 world1)
       = Raised (KeyError ''print_predictions'')
   \<and> map (\<lambda>m. length (m_updates m))
        (metrics (heap (snd (run_evaluator TensorflowEvaluator env0 kwargs_none ''bit_m'' model0 0 world1)) ! 0))
       = [1]"
proof -
  let ?R = "run_evaluator PytorchEvaluator env0 kwargs_off ''resnet50'' model0 0 world1"
  let ?T = "run_evaluator TensorflowEvaluator env0 kwargs_none ''bit_m'' model0 0 world1"
  have a: "0 < length (heap world1)" by (simp add: world1_def)
  have k: "kwargs_off ''print_predictions'' = Some False" by (simp add: kwargs_off_def)
  have kn: "kwargs_none ''print_predictions'' = None" by (simp add: kwargs_none_def)
  have b: "length (batches_of env0 (loader (heap world1 ! 0))) = 2"
    by (simp add: world1_def dataset0_def)
  have c: "map m_class (metrics (heap world1 ! 0)) = [OtherMetric ''accuracy'']"
    by (simp add: world1_def dataset0_def)
  from one_update_per_processed_batch [OF a, of PytorchEvaluator env0 kwargs_off "''resnet50''" model0] k b
  have r: "fst ?R = Returned ()"
    and mc: "map m_class (metrics (heap (snd ?R) ! 0)) = map m_class (metrics (heap world1 ! 0))"
    and u: "\<forall>m\<in>set (metrics (heap (snd ?R) ! 0)). length (m_updates m) = 2"
    by auto
  from mc c obtain m where "metrics (heap (snd ?R) ! 0) = [m]" by auto
  with u have x: "map (\<lambda>m. length (m_updates m)) (metrics (heap (snd ?R) ! 0)) = [2]" by simp
  from one_update_per_processed_batch [OF a, of TensorflowEvaluator env0 kwargs_none "''bit_m''" model0] kn b
  have r': "fst ?T = Raised (KeyError ''print_predictions'')"
    and mc': "map m_class (metrics (heap (snd ?T) ! 0)) = map m_class (metrics (heap world1 ! 0))"
    and u': "\<forall>m\<in>set (metrics (heap (snd ?T) ! 0)). length (m_updates m) = 1"
    by auto
  from mc' c obtain m' where "metrics (heap (snd ?T) ! 0) = [m']" by auto
  with u' have y: "map (\<lambda>m. length (m_updates m)) (metrics (heap (snd ?T) ! 0)) = [1]" by simp
  from b r x r' y show ?thesis by simp
qed

lemma to_tensorflow_addresses:
  "fst (to_tensorflow ds w) = map (\<lambda>a. length (heap w) + index_of (remdups ds) a) ds"
  by (simp add: to_tensorflow_def deepcopy_def Let_def)

lemma dataset_loop_missing_option:
  assumes "kw ''print_predictions'' = None"
  shows "fst (dataset_loop E kw ev mn M (a # as) w) = Raised (KeyError ''print_predictions'')"
proof -
  obtain r w1 where R: "run_evaluator ev E kw mn M a w = (r, w1)"
    by (cases "run_evaluator ev E kw mn M a w")
  have "fst (run_evaluator ev E kw mn M a w) = Returned ()
        \<or> fst (run_evaluator ev E kw mn M a w) = Raised (KeyError ''print_predictions'')"
    using assms by (simp add: run_evaluator_outcome)
  then show ?thesis
    using assms R by (auto simp: getitem_def)
qed

text \<open>
  Claim C10: when the options lack the key \<open>print_predictions\<close>, nothing defaults to
  skipping the CSV output: each backend evaluator raises a key error at the check of its
  first batch, the loop over the datasets raises it for its first dataset (inside the
  evaluator, or at its own check when the loader is empty), and so does the evaluation of
  a model of either backend on at least one dataset.
\<close>

theorem print_predictions_required:
  "kw ''print_predictions'' = None \<Longrightarrow>
     (batches_of E (loader (heap w ! a)) \<noteq> [] \<longrightarrow>
        fst (pytorch_evaluator E kw mn M a w) = Raised (KeyError ''print_predictions'')
        \<and> fst (tensorflow_evaluator E kw mn M a w) = Raised (KeyError ''print_predictions''))
     \<and> fst (dataset_loop E kw ev mn M (a # as) w) = Raised (KeyError ''print_predictions'')
     \<and> (load_model E mn = Returned (M, framework)
          \<and> (framework = ''pytorch'' \<or> framework = ''tensorflow'') \<and> ds \<noteq> [] \<longrightarrow>
          fst (model_step E kw n mn ds w) = Raised (KeyError ''print_predictions'')
          \<and> fst (model_loop E kw n (mn # rest) ds w) = Raised (KeyError ''print_predictions''))"
proof (intro conjI impI)
  assume k: "kw ''print_predictions'' = None"
  {
    assume b: "batches_of E (loader (heap w ! a)) \<noteq> []"
    from run_evaluator_outcome[of PytorchEvaluator E kw mn M a w] k b
    show "fst (pytorch_evaluator E kw mn M a w) = Raised (KeyError ''print_predictions'')"
      by simp
    from run_evaluator_outcome[of TensorflowEvaluator E kw mn M a w] k b
    show "fst (tensorflow_evaluator E kw mn M a w) = Raised (KeyError ''print_predictions'')"
      by simp
  }
  show "fst (dataset_loop E kw ev mn M (a # as) w) = Raised (KeyError ''print_predictions'')"
    using dataset_loop_missing_option[of kw E ev mn M a as w] k by simp
  {
    assume h: "load_model E mn = Returned (M, framework)
          \<and> (framework = ''pytorch'' \<or> framework = ''tensorflow'') \<and> ds \<noteq> []"
    then obtain d ds' where ds: "ds = d # ds'" by (cases ds) auto
    have s: "fst (model_step E kw n mn ds w) = Raised (KeyError ''print_predictions'')"
    proof (cases "framework = ''tensorflow''")
      case True
      obtain cs w1 where t: "to_tensorflow ds w = (cs, w1)" by (cases "to_tensorflow ds w")
      with to_tensorflow_addresses[of ds w] ds obtain c cs' where cs: "cs = c # cs'" by auto
      from dataset_loop_missing_option[of kw E TensorflowEvaluator mn M c cs' w1] k
      obtain w2 where "dataset_loop E kw TensorflowEvaluator mn M (c # cs') w1
          = (Raised (KeyError ''print_predictions''), w2)"
        by (metis prod.collapse)
      with h True t cs show ?thesis
        by (simp add: model_step_def get_evaluator_def)
    next
      case False
      with h have p: "framework = ''pytorch''" by simp
      from dataset_loop_missing_option[of kw E PytorchEvaluator mn M d ds' w] k
      obtain w2 where "dataset_loop E kw PytorchEvaluator mn M (d # ds') w
          = (Raised (KeyError ''print_predictions''), w2)"
        by (metis prod.collapse)
      with h p ds show ?thesis
        by (simp add: model_step_def get_evaluator_def)
    qed
    then show "fst (model_step E kw n mn ds w) = Raised (KeyError ''print_predictions'')" .
    from s obtain w2 where "model_step E kw n mn ds w = (Raised (KeyError ''print_predictions''), w2)"
      by (metis prod.collapse)
    then show "fst (model_loop E kw n (mn # rest) ds w) = Raised (KeyError ''print_predictions'')"
      by simp
  }
qed

text \<open>The theorem at empty options, for a dataset of two batches.\<close>

theorem print_predictions_required_witness:
  "fst (pytorch_evaluator env0 kwargs_none ''resnet50'' model0 0 world1)
     = Raised (KeyError ''print_predictions'')
   \<and> fst (tensorflow_evaluator env0 kwargs_none ''bit_m'' model0 0 world1)
     = Raised (KeyError ''print_predictions'')
   \<and> fst (dataset_loop env0 kwargs_none PytorchEvaluator ''resnet50'' model0 [0] world1)
     = Raised (KeyError ''print_predictions'')
   \<and> fst (model_loop env0 kwargs_none 1 [''resnet50''] [0] world1)
     = Raised (KeyError ''print_predictions'')"
proof -
  have k: "kwargs_none ''print_predictions'' = None" by (simp add: kwargs_none_def)
  have b: "batches_of env0 (loader (heap world1 ! 0)) \<noteq> []"
    by (simp add: world1_def dataset0_def)
  have l: "load_model env0 ''resnet50'' = Returned (model0, ''pytorch'')
          \<and> (''pytorch'' = ''pytorch'' \<or> ''pytorch'' = ''tensorflow'') \<and> [0::nat] \<noteq> []"
    by (simp add: env0_def)
  from print_predictions_required [of kwargs_none env0 world1 0 "''resnet50''" model0
      PytorchEvaluator "[]" "''pytorch''" "[0]" 1 "[]"]
    print_predictions_required [of kwargs_none env0 world1 0 "''bit_m''" model0
      TensorflowEvaluator "[]" "''tensorflow''" "[0]" 1 "[]"] k b l
  show ?thesis by blast
qed

section \<open>Properties of the extractor\<close>

lemma update_metrics_mapping [simp]:
  "decision_mapping (heap (update_metrics u a w) ! a) = decision_mapping (heap w ! a)"
proof (cases "a < length (heap w)")
  case True
  then show ?thesis by (simp add: update_metrics_at)
next
  case False
  then have "length (heap w) \<le> a" by simp
  then have "heap (update_metrics u a w) = heap w"
    unfolding update_metrics_def by (simp del: list_update_beyond add: list_update_beyond[of "heap w" a])
  then show ?thesis by simp
qed

lemma dm_call_raw:
  "return_raw_probs dm \<Longrightarrow>
     dm_call dm probs = RawProbs (fst (raw_probs_of dm probs)) (snd (raw_probs_of dm probs))"
  by (simp add: dm_call_def split: prod.splits)

lemma layer_loop_updates:
  "a < length (heap w) \<Longrightarrow> return_raw_probs (decision_mapping (heap w ! a)) \<Longrightarrow>
     \<exists>us w'. layer_loop E M a bsz hsz target paths layer ivs w = (Returned (), w')
       \<and> length (heap w') = length (heap w)
       \<and> decision_mapping (heap w' ! a) = decision_mapping (heap w ! a)
       \<and> map update_layer us = map Some [layer..<layer + length ivs]
       \<and> metrics (heap w' ! a) = map (\<lambda>m. m\<lparr>m_updates := m_updates m @ us\<rparr>) (metrics (heap w ! a))"
proof (induction ivs arbitrary: w layer)
  case Nil
  have "metrics (heap w ! a) = map (\<lambda>m. m\<lparr>m_updates := m_updates m @ []\<rparr>) (metrics (heap w ! a))"
    by simp
  then show ?case by (intro exI[of _ "[]"] exI[of _ w]) simp
next
  case (Cons iv ivs)
  obtain sp pf where iv: "iv = (sp, pf)" by (cases iv)
  define probs where "probs = softmax M (cpu_numpy E (forward_head M (cat1 E pf (reshape E sp bsz hsz))))"
  define bt where "bt = (case target of TorchTensor t \<Rightarrow> Plain (to_numpy M t) | Plain t \<Rightarrow> Plain t)"
  define dm where "dm = decision_mapping (heap w ! a)"
  define u where "u = LayerUpdate (fst (raw_probs_of dm probs)) (snd (raw_probs_of dm probs)) bt paths layer"
  define w1 where "w1 = update_metrics u a w"
  have c: "dm_call dm probs = RawProbs (fst (raw_probs_of dm probs)) (snd (raw_probs_of dm probs))"
    using Cons.prems(2) by (simp add: dm_def dm_call_raw)
  have step: "layer_loop E M a bsz hsz target paths layer (iv # ivs) w
      = layer_loop E M a bsz hsz target paths (Suc layer) ivs w1"
    using c by (simp add: iv Let_def probs_def[symmetric] bt_def[symmetric] dm_def[symmetric]
        u_def[symmetric] w1_def[symmetric])
  have a1: "a < length (heap w1)" using Cons.prems(1) by (simp add: w1_def)
  have d1: "decision_mapping (heap w1 ! a) = decision_mapping (heap w ! a)" by (simp add: w1_def)
  have r1: "return_raw_probs (decision_mapping (heap w1 ! a))" using Cons.prems(2) by (simp add: d1)
  from Cons.IH[OF a1 r1, of "Suc layer"] obtain us w' where
    l: "layer_loop E M a bsz hsz target paths (Suc layer) ivs w1 = (Returned (), w')"
    and len: "length (heap w') = length (heap w1)"
    and d: "decision_mapping (heap w' ! a) = decision_mapping (heap w1 ! a)"
    and ul: "map update_layer us = map Some [Suc layer..<Suc layer + length ivs]"
    and m: "metrics (heap w' ! a) = map (\<lambda>m. m\<lparr>m_updates := m_updates m @ us\<rparr>) (metrics (heap w1 ! a))"
    by blast
  have m1: "metrics (heap w1 ! a) = map (update u) (metrics (heap w ! a))"
    using Cons.prems(1) by (simp add: w1_def update_metrics_at)
  have m2: "metrics (heap w' ! a) = map (\<lambda>m. m\<lparr>m_updates := m_updates m @ (u # us)\<rparr>) (metrics (heap w ! a))"
    by (simp add: m m1 update_def)
  have e: "[layer..<layer + length (iv # ivs)] = layer # [Suc layer..<Suc layer + length ivs]"
    by (simp add: upt_conv_Cons del: upt_Suc)
  have ul2: "map update_layer (u # us) = map Some [layer..<layer + length (iv # ivs)]"
    unfolding e using ul by (simp add: u_def del: upt_Suc)
  have len2: "length (heap w') = length (heap w)" using len by (simp add: w1_def)
  from step l len2 d d1 ul2 m2 show ?case
    by (intro exI[of _ "u # us"] exI[of _ w']) simp
qed

lemma extractor_loop_updates:
  "a < length (heap w) \<Longrightarrow> return_raw_probs (decision_mapping (heap w ! a)) \<Longrightarrow>
     \<exists>us w'. extractor_loop E M a bs w = (Returned (), w')
       \<and> length (heap w') = length (heap w)
       \<and> map update_layer us
           = concat (map (\<lambda>b. map Some [0..<length (snd (forward_intermediates M (to_device E (fst b))))]) bs)
       \<and> metrics (heap w' ! a) = map (\<lambda>m. m\<lparr>m_updates := m_updates m @ us\<rparr>) (metrics (heap w ! a))"
proof (induction bs arbitrary: w)
  case Nil
  have "metrics (heap w ! a) = map (\<lambda>m. m\<lparr>m_updates := m_updates m @ []\<rparr>) (metrics (heap w ! a))"
    by simp
  then show ?case by (intro exI[of _ "[]"] exI[of _ w]) simp
next
  case (Cons b bs)
  obtain images target paths where b: "b = (images, target, paths)" by (cases b)
  obtain ff ivs where f: "forward_intermediates M (to_device E images) = (ff, ivs)"
    by (cases "forward_intermediates M (to_device E images)")
  from layer_loop_updates[OF Cons.prems, of E M "shape0 E ff" "shape2 E ff" target paths 0 ivs]
  obtain us1 w1 where
    l: "layer_loop E M a (shape0 E ff) (shape2 E ff) target paths 0 ivs w = (Returned (), w1)"
    and len: "length (heap w1) = length (heap w)"
    and d: "decision_mapping (heap w1 ! a) = decision_mapping (heap w ! a)"
    and ul: "map update_layer us1 = map Some [0..<0 + length ivs]"
    and m: "metrics (heap w1 ! a) = map (\<lambda>m. m\<lparr>m_updates := m_updates m @ us1\<rparr>) (metrics (heap w ! a))"
    by blast
  have step: "extractor_loop E M a (b # bs) w = extractor_loop E M a bs w1"
    by (simp add: b f l)
  have a1: "a < length (heap w1)" using Cons.prems(1) len by simp
  have r1: "return_raw_probs (decision_mapping (heap w1 ! a))" using Cons.prems(2) d by simp
  from Cons.IH[OF a1 r1] obtain us w' where
    e: "extractor_loop E M a bs w1 = (Returned (), w')"
    and len': "length (heap w') = length (heap w1)"
    and ul': "map update_layer us
           = concat (map (\<lambda>b. map Some [0..<length (snd (forward_intermediates M (to_device E (fst b))))]) bs)"
    and m': "metrics (heap w' ! a) = map (\<lambda>m. m\<lparr>m_updates := m_updates m @ us\<rparr>) (metrics (heap w1 ! a))"
    by blast
  have m2: "metrics (heap w' ! a) = map (\<lambda>m. m\<lparr>m_updates := m_updates m @ (us1 @ us)\<rparr>) (metrics (heap w ! a))"
    by (simp add: m m')
  have ul2: "map update_layer (us1 @ us)
      = concat (map (\<lambda>b. map Some [0..<length (snd (forward_intermediates M (to_device E (fst b))))]) (b # bs))"
    using ul ul' by (simp add: b f)
  from step e len len' ul2 m2 show ?case
    by (intro exI[of _ "us1 @ us"] exI[of _ w']) simp
qed

text \<open>
  Claim C4: \<open>_pytorch_extractor\<close> returns, replaces the metric list of the dataset by
  the three accumulators reciprocal rank, probability and entropy, whatever the list was,
  and gives each of them, for every batch, one update per intermediate layer the model
  reports for the batch, carrying the layer indices \<open>0, 1, ...\<close> in order.
\<close>

theorem extraction_updates_per_layer:
  "a < length (heap w) \<Longrightarrow>
     fst (pytorch_extractor E kw mn M a w) = Returned ()
     \<and> map m_class (metrics (heap (snd (pytorch_extractor E kw mn M a w)) ! a))
         = [ReciprocalRank, Probability, Entropy]
     \<and> (\<forall>m\<in>set (metrics (heap (snd (pytorch_extractor E kw mn M a w)) ! a)).
          map update_layer (m_updates m)
            = concat (map (\<lambda>b. map Some
                  [0..<length (snd (forward_intermediates M (to_device E (fst b))))])
                (batches_of E (loader (heap w ! a)))))"
proof -
  assume a: "a < length (heap w)"
  define d2 where "d2 = (heap w ! a)\<lparr>decision_mapping := dm_init True (decision_mapping (heap w ! a)),
      metrics := extraction_metrics\<rparr>"
  define w1 where "w1 = w\<lparr>heap := (heap w)[a := d2]\<rparr>"
  have p: "pytorch_extractor E kw mn M a w = extractor_loop E M a (batches_of E (loader (heap w ! a))) w1"
    by (simp add: pytorch_extractor_def Let_def w1_def d2_def)
  have h1: "heap w1 ! a = d2" using a by (simp add: w1_def)
  have a1: "a < length (heap w1)" using a by (simp add: w1_def)
  have r1: "return_raw_probs (decision_mapping (heap w1 ! a))"
    by (simp add: h1 d2_def dm_init_def)
  from extractor_loop_updates[OF a1 r1, of E M "batches_of E (loader (heap w ! a))"]
  obtain us w' where
    e: "extractor_loop E M a (batches_of E (loader (heap w ! a))) w1 = (Returned (), w')"
    and ul: "map update_layer us
           = concat (map (\<lambda>b. map Some [0..<length (snd (forward_intermediates M (to_device E (fst b))))])
               (batches_of E (loader (heap w ! a))))"
    and m: "metrics (heap w' ! a) = map (\<lambda>m. m\<lparr>m_updates := m_updates m @ us\<rparr>) (metrics (heap w1 ! a))"
    by blast
  have m2: "metrics (heap w' ! a) = map (\<lambda>m. m\<lparr>m_updates := m_updates m @ us\<rparr>) extraction_metrics"
    by (simp add: m h1 d2_def)
  have s: "snd (pytorch_extractor E kw mn M a w) = w'" and f: "fst (pytorch_extractor E kw mn M a w) = Returned ()"
    by (simp_all add: p e)
  show ?thesis
    using ul by (simp add: s f m2 extraction_metrics_def new_metric_def)
qed

text \<open>The theorem at a dataset of two batches and a model reporting two layers.\<close>

theorem extraction_updates_per_layer_witness:
  "fst (pytorch_extractor env0 kwargs_off ''resnet50'' model0 0 world1) = Returned ()
   \<and> map m_class (metrics (heap (snd (pytorch_extractor env0 kwargs_off ''resnet50'' model0 0 world1)) ! 0))
       = [ReciprocalRank, Probability, Entropy]
   \<and> map (\<lambda>m. map update_layer (m_updates m))
        (metrics (heap (snd (pytorch_extractor env0 kwargs_off ''resnet50'' model0 0 world1)) ! 0))
       = [[Some 0, Some 1, Some 0, Some 1], [Some 0, Some 1, Some 0, Some 1],
          [Some 0, Some 1, Some 0, Some 1]]"
proof -
  let ?ms = "metrics (heap (snd (pytorch_extractor env0 kwargs_off ''resnet50'' model0 0 world1)) ! 0)"
  have a: "0 < length (heap world1)" by (simp add: world1_def)
  have b: "concat (map (\<lambda>b. map Some
                  [0..<length (snd (forward_intermediates model0 (to_device env0 (fst b))))])
                (batches_of env0 (loader (heap world1 ! 0)))) = [Some 0, Some 1, Some 0, Some 1]"
    by (simp add: world1_def dataset0_def model0_def env0_def upt_rec)
  from extraction_updates_per_layer [OF a, of env0 kwargs_off "''resnet50''" model0]
  have r: "fst (pytorch_extractor env0 kwargs_off ''resnet50'' model0 0 world1) = Returned ()"
    and c: "map m_class ?ms = [ReciprocalRank, Probability, Entropy]"
    and u: "\<forall>m\<in>set ?ms. map update_layer (m_updates m) = [Some 0, Some 1, Some 0, Some 1]"
    unfolding b by blast+
  from c obtain m1 m2 m3 where "?ms = [m1, m2, m3]" by auto
  with u have "map (\<lambda>m. map update_layer (m_updates m)) ?ms
       = [[Some 0, Some 1, Some 0, Some 1], [Some 0, Some 1, Some 0, Some 1],
          [Some 0, Some 1, Some 0, Some 1]]" by simp
  with r c show ?thesis by simp
qed

section \<open>Properties of the eviction threshold\<close>
























section \<open>Properties of the tensorflow conversion\<close>

subsection \<open>The copy made for a tensorflow model\<close>





subsection \<open>Objects below an address bound stay as they are\<close>













end
